theory Spec2Isabelle
  imports Main "HOL-Library.AList"
begin

section \<open>JSON values and the JavaScript conversions the client relies on\<close>

text \<open>
  Request bodies, query parameters and response bodies are JSON. An object keeps its
  properties in insertion order with distinct keys; a property is written with
  \<open>AList.update\<close> (JavaScript's \<^verbatim>\<open>obj.k = v\<close>) and read with \<open>map_of\<close>. Every number the
  client handles is an identifier, a page index, a page size or an HTTP status, so numbers
  are integers (of the size JavaScript prints in plain decimal). An object is one that
  holds data: it has no property named \<^verbatim>\<open>toString\<close> or \<^verbatim>\<open>valueOf\<close> of its own. An absent
  property (\<^verbatim>\<open>undefined\<close>) is \<open>None\<close>.
\<close>

datatype json =
    JNull
  | JBool bool
  | JNum int
  | JStr string
  | JArr "json list"
  | JObj "(string \<times> json) list"

text \<open>Truthiness, as \<^verbatim>\<open>if (v)\<close> and \<^verbatim>\<open>a || b\<close> test it.\<close>

fun truthy :: "json \<Rightarrow> bool" where
  "truthy JNull = False"
| "truthy (JBool b) = b"
| "truthy (JNum n) = (n \<noteq> 0)"
| "truthy (JStr s) = (s \<noteq> [])"
| "truthy (JArr xs) = True"
| "truthy (JObj kvs) = True"

text \<open>Decimal rendering of a number inside a template literal.\<close>

definition digit :: "nat \<Rightarrow> char" where
  "digit n = ''0123456789'' ! n"

function decimal :: "nat \<Rightarrow> string" where
  "decimal n =
     (if n < 10 then [digit n]
      else decimal (n div 10) @ [digit (n mod 10)])"
  by pat_completeness auto
termination
  by (relation "measure id") auto

declare decimal.simps [simp del]

definition number_string :: "int \<Rightarrow> string" where
  "number_string i = (if i < 0 then ''-'' @ decimal (nat (- i)) else decimal (nat i))"

text \<open>
  \<^verbatim>\<open>String(v)\<close>, the conversion a template literal applies: an array joins its elements
  with commas (a null element gives the empty string), an object gives
  \<^verbatim>\<open>[object Object]\<close>.
\<close>

fun ToString :: "json \<Rightarrow> string"
  and join_elements :: "json list \<Rightarrow> string" where
  "ToString JNull = ''null''"
| "ToString (JBool b) = (if b then ''true'' else ''false'')"
| "ToString (JNum n) = number_string n"
| "ToString (JStr s) = s"
| "ToString (JArr xs) = join_elements xs"
| "ToString (JObj kvs) = ''[object Object]''"
| "join_elements [] = []"
| "join_elements [x] = (if x = JNull then [] else ToString x)"
| "join_elements (x # y # ys) =
     (if x = JNull then [] else ToString x) @ '','' @ join_elements (y # ys)"

definition template :: "json option \<Rightarrow> string" where
  "template v = (case v of None \<Rightarrow> ''undefined'' | Some x \<Rightarrow> ToString x)"

text \<open>
  \<^verbatim>\<open>data?.k\<close> for a property name \<open>k\<close> that no built-in prototype defines: only an
  object can carry it; null and the primitive values give \<^verbatim>\<open>undefined\<close>.
\<close>

fun optional_chain :: "json \<Rightarrow> string \<Rightarrow> json option" where
  "optional_chain (JObj kvs) k = map_of kvs k"
| "optional_chain v k = None"

text \<open>\<^verbatim>\<open>a || b\<close> on values that may be \<^verbatim>\<open>undefined\<close>.\<close>

definition or_else :: "json option \<Rightarrow> json option \<Rightarrow> json option" where
  "or_else a b = (case a of None \<Rightarrow> b | Some v \<Rightarrow> if truthy v then a else b)"

section \<open>The HTTP layer as the client sees it\<close>

datatype http_method = GET | POST | PUT | DELETE

text \<open>
  The request configuration axios hands to the transport and attaches to every error of
  an attempt (the field \<^verbatim>\<open>method\<close> is written \<open>method'\<close>, the request body \<open>body\<close>).
  \<open>retryCount\<close> is the \<^verbatim>\<open>__retryCount\<close> property the interceptor stashes on it; \<open>None\<close> is
  \<^verbatim>\<open>undefined\<close>.
\<close>

record request_config =
  baseURL :: string
  timeout :: nat
  headers :: "(string \<times> string) list"
  method' :: http_method
  url :: string
  params :: "(string \<times> json) list"
  body :: "json option"
  retryCount :: "nat option"

record http_response =
  status :: int
  data :: json

text \<open>An \<^verbatim>\<open>AxiosError\<close>: \<^verbatim>\<open>error.config\<close>, \<^verbatim>\<open>error.response\<close>, \<^verbatim>\<open>error.message\<close>.\<close>

record axios_error =
  config :: "request_config option"
  response :: "http_response option"
  message :: string

subsection \<open>Retry configuration\<close>

definition MAX_RETRIES :: nat where
  "MAX_RETRIES = 3"

definition RETRY_DELAY_MS :: nat where
  "RETRY_DELAY_MS = 1000"

definition REQUEST_TIMEOUT_MS :: nat where
  "REQUEST_TIMEOUT_MS = 30000"

subsection \<open>Classification and formatting of failures\<close>

definition isRetryableError :: "axios_error \<Rightarrow> bool" where
  "isRetryableError error =
     (case response error of
        None \<Rightarrow> True
      | Some r \<Rightarrow> status r = 429 \<or> (status r \<ge> 500 \<and> status r < 600))"

definition formatError :: "axios_error \<Rightarrow> string" where
  "formatError error =
     (case response error of
        None \<Rightarrow>
          ''Network error: '' @ message error @
          ''. The Raindrop.io API may be temporarily unavailable. DO NOT RETRY - this is a connectivity issue.''
      | Some r \<Rightarrow>
          (if status r = 400 then
             ''Bad request: '' @
             template (or_else (optional_chain (data r) ''errorMessage'')
                        (or_else (optional_chain (data r) ''error'')
                           (Some (JStr ''Invalid parameters provided'')))) @
             ''. Please check the input values and DO NOT RETRY with the same parameters.''
           else if status r = 401 then
             ''Authentication failed: Invalid or expired API token. Please check your RAINDROP_API_TOKEN. DO NOT RETRY - user must fix the token.''
           else if status r = 403 then
             ''Access denied: You do not have permission for this operation. DO NOT RETRY.''
           else if status r = 404 then
             ''Not found: The requested resource does not exist. It may have been deleted. DO NOT RETRY.''
           else if status r = 429 then
             ''Rate limited: Too many requests. The server has already retried. Please inform the user to wait before trying again.''
           else if status r \<ge> 500 then
             ''Raindrop.io server error ('' @ number_string (status r) @
             ''): The service is temporarily unavailable. Already retried '' @
             decimal MAX_RETRIES @ '' times.''
           else
             ''API error ('' @ number_string (status r) @ ''): '' @
             template (or_else (optional_chain (data r) ''errorMessage'')
                        (or_else (optional_chain (data r) ''error'')
                           (Some (JStr (message error))))) @
             ''. DO NOT RETRY.''))"

subsection \<open>The response interceptor and the retry loop\<close>

text \<open>
  What the remote side does with the \<open>k\<close>-th call of \<^verbatim>\<open>client.request\<close>: it answers with a
  response axios accepts, or the HTTP attempt fails (with the rejected response, or with
  no response at all on a network failure; axios attaches the attempt's configuration to
  the error), or the call is rejected before any request is sent, by an error that
  carries neither a configuration nor a response.
\<close>

datatype outcome =
    Responded http_response
  | AttemptFailed "http_response option" string
  | NotDispatched string

text \<open>What an operation can be observed to do: send a request, or wait.\<close>

datatype event = Sent request_config | Delayed nat

text \<open>\<^verbatim>\<open>(config as any).__retryCount || 0\<close>.\<close>

definition current_count :: "request_config \<Rightarrow> nat" where
  "current_count cfg = (case retryCount cfg of None \<Rightarrow> 0 | Some n \<Rightarrow> if n \<noteq> 0 then n else 0)"

text \<open>
  The rejection handler of the interceptor, up to its two effects: it either throws
  \<^verbatim>\<open>new Error(formatError(error))\<close>, or it stores the incremented counter on the
  configuration, waits for the back-off delay and requests the configuration again.
\<close>

datatype decision = Throw string | Retry nat request_config

definition onRejected :: "axios_error \<Rightarrow> decision" where
  "onRejected error =
     (case config error of
        None \<Rightarrow> Throw (formatError error)
      | Some cfg \<Rightarrow>
          (let count = current_count cfg in
           if count < MAX_RETRIES \<and> isRetryableError error then
             Retry (RETRY_DELAY_MS * 2 ^ count) (cfg\<lparr>retryCount := Some (count + 1)\<rparr>)
           else Throw (formatError error)))"

text \<open>The error of a failed attempt of \<open>cfg\<close>, and the error of a call that sent nothing.\<close>

definition failure :: "request_config \<Rightarrow> http_response option \<Rightarrow> string \<Rightarrow> axios_error" where
  "failure cfg r m = \<lparr>config = Some cfg, response = r, message = m\<rparr>"

definition undispatched :: "string \<Rightarrow> axios_error" where
  "undispatched m = \<lparr>config = None, response = None, message = m\<rparr>"

text \<open>
  \<^verbatim>\<open>client.request(config)\<close> through the interceptors, \<open>k\<close> calls having been made before:
  a response passes unchanged, a rejection goes to \<open>onRejected\<close>, whose retry calls
  \<^verbatim>\<open>client.request\<close> again with the configuration of the error (axios keeps the stored
  counter on it). The result is the response or the message of the thrown \<^verbatim>\<open>Error\<close>, with
  the events in order. The recursion ends because every retry raises the stored counter,
  and none is made once it has reached \<open>MAX_RETRIES\<close>.
\<close>

function request ::
  "(nat \<Rightarrow> outcome) \<Rightarrow> nat \<Rightarrow> request_config \<Rightarrow> (string + http_response) \<times> event list" where
  "request net k cfg =
     (case net k of
        Responded r \<Rightarrow> (Inr r, [Sent cfg])
      | AttemptFailed r m \<Rightarrow>
          (case onRejected (failure cfg r m) of
             Throw msg \<Rightarrow> (Inl msg, [Sent cfg])
           | Retry ms cfg' \<Rightarrow>
               (case request net (Suc k) cfg' of
                  (res, evs) \<Rightarrow> (res, Sent cfg # Delayed ms # evs)))
      | NotDispatched m \<Rightarrow>
          (case onRejected (undispatched m) of
             Throw msg \<Rightarrow> (Inl msg, [])
           | Retry ms cfg' \<Rightarrow>
               (case request net (Suc k) cfg' of
                  (res, evs) \<Rightarrow> (res, Delayed ms # evs))))"
  by pat_completeness auto
termination
proof (relation "measure (\<lambda>(net, k, cfg). MAX_RETRIES - current_count cfg)")
  show "wf (measure (\<lambda>(net, k, cfg). MAX_RETRIES - current_count cfg))"
    by simp
next
  fix net :: "nat \<Rightarrow> outcome" and k cfg r m ms cfg'
  assume "net k = AttemptFailed r m" and "onRejected (failure cfg r m) = Retry ms cfg'"
  then show "((net, Suc k, cfg'), net, k, cfg)
      \<in> measure (\<lambda>(net, k, cfg). MAX_RETRIES - current_count cfg)"
    by (auto simp: onRejected_def failure_def current_count_def Let_def
          split: if_splits option.splits)
next
  fix net :: "nat \<Rightarrow> outcome" and k cfg m ms cfg'
  assume "net k = NotDispatched m" and "onRejected (undispatched m) = Retry ms cfg'"
  then show "((net, Suc k, cfg'), net, k, cfg)
      \<in> measure (\<lambda>(net, k, cfg). MAX_RETRIES - current_count cfg)"
    by (simp add: onRejected_def undispatched_def)
qed

declare request.simps [simp del]

text \<open>The requests an operation sent and the delays it waited, in order.\<close>

fun requests_sent :: "event list \<Rightarrow> request_config list" where
  "requests_sent [] = []"
| "requests_sent (Sent cfg # evs) = cfg # requests_sent evs"
| "requests_sent (Delayed ms # evs) = requests_sent evs"

fun delays :: "event list \<Rightarrow> nat list" where
  "delays [] = []"
| "delays (Sent cfg # evs) = delays evs"
| "delays (Delayed ms # evs) = ms # delays evs"

text \<open>
  The retry schedule in the words of the specification, to compare the loop with: for a
  request that has been retried \<open>c\<close> times and fails \<open>n\<close> more times, before each retry
  a delay that starts at 1000 ms and doubles with every retry made, then the same request
  again, only its counter changed.
\<close>

definition prescribed_retries :: "request_config \<Rightarrow> nat \<Rightarrow> nat \<Rightarrow> event list" where
  "prescribed_retries cfg c n =
     concat (map (\<lambda>i. [Delayed (1000 * 2 ^ (c + i)), Sent (cfg\<lparr>retryCount := Some (Suc (c + i))\<rparr>)])
               [0..<n])"

section \<open>The Raindrop client\<close>

subsection \<open>Parameter types\<close>

text \<open>The interfaces of the client; the field \<^verbatim>\<open>note\<close> is written \<open>note'\<close>.\<close>

record RaindropConfig =
  apiToken :: string
  baseUrl :: "string option"

record SearchParams =
  collectionId :: "int option"
  search :: "string option"
  sort :: "string option"
  perpage :: "int option"
  page :: "int option"
  tag :: "string list option"

record CreateRaindropParams =
  link :: string
  title :: "string option"
  excerpt :: "string option"
  note' :: "string option"
  tags :: "string list option"
  collectionId :: "int option"
  important :: "bool option"

record UpdateRaindropParams =
  title :: "string option"
  excerpt :: "string option"
  note' :: "string option"
  tags :: "string list option"
  collectionId :: "int option"
  important :: "bool option"

record CreateCollectionParams =
  title :: string
  description :: "string option"
  public :: "bool option"
  view :: "string option"
  parent :: "int option"

record UpdateCollectionParams =
  title :: "string option"
  description :: "string option"
  public :: "bool option"
  view :: "string option"
  parent :: "int option"

subsection \<open>Construction and the axios verbs\<close>

text \<open>
  The constructor creates the axios instance; the instance is its default configuration,
  which every call completes with a method, a path and a query or a body.
\<close>

definition RaindropClient :: "RaindropConfig \<Rightarrow> request_config" where
  "RaindropClient c =
     \<lparr>baseURL = (case baseUrl c of
                   None \<Rightarrow> ''https://api.raindrop.io/rest/v1''
                 | Some u \<Rightarrow> if u \<noteq> [] then u else ''https://api.raindrop.io/rest/v1''),
      timeout = REQUEST_TIMEOUT_MS,
      headers = [(''Authorization'', ''Bearer '' @ apiToken c),
                 (''Content-Type'', ''application/json'')],
      method' = GET, url = [], params = [], body = None, retryCount = None\<rparr>"

definition axios_get :: "request_config \<Rightarrow> string \<Rightarrow> (string \<times> json) list \<Rightarrow> request_config" where
  "axios_get client path query = client\<lparr>method' := GET, url := path, params := query\<rparr>"

definition axios_post :: "request_config \<Rightarrow> string \<Rightarrow> json \<Rightarrow> request_config" where
  "axios_post client path payload = client\<lparr>method' := POST, url := path, body := Some payload\<rparr>"

definition axios_put :: "request_config \<Rightarrow> string \<Rightarrow> json \<Rightarrow> request_config" where
  "axios_put client path payload = client\<lparr>method' := PUT, url := path, body := Some payload\<rparr>"

definition axios_delete :: "request_config \<Rightarrow> string \<Rightarrow> json option \<Rightarrow> request_config" where
  "axios_delete client path payload = client\<lparr>method' := DELETE, url := path, body := payload\<rparr>"

subsection \<open>Payloads\<close>

text \<open>\<^verbatim>\<open>if (v) obj.k = v\<close> and \<^verbatim>\<open>if (v !== undefined) obj.k = v\<close>.\<close>

definition set_if_truthy :: "string \<Rightarrow> json option \<Rightarrow> (string \<times> json) list \<Rightarrow> (string \<times> json) list" where
  "set_if_truthy k v obj =
     (case v of None \<Rightarrow> obj | Some x \<Rightarrow> if truthy x then AList.update k x obj else obj)"

definition set_if_defined :: "string \<Rightarrow> json option \<Rightarrow> (string \<times> json) list \<Rightarrow> (string \<times> json) list" where
  "set_if_defined k v obj = (case v of None \<Rightarrow> obj | Some x \<Rightarrow> AList.update k x obj)"

definition strings :: "string list \<Rightarrow> json" where
  "strings xs = JArr (map JStr xs)"

text \<open>\<^verbatim>\<open>params.collectionId || 0\<close>.\<close>

definition or_zero :: "int option \<Rightarrow> int" where
  "or_zero v = (case v of None \<Rightarrow> 0 | Some n \<Rightarrow> if n \<noteq> 0 then n else 0)"

definition searchRaindrops_queryParams :: "SearchParams \<Rightarrow> (string \<times> json) list" where
  "searchRaindrops_queryParams p =
     (let queryParams = [];
          queryParams = set_if_truthy ''search'' (map_option JStr (search p)) queryParams;
          queryParams = set_if_truthy ''sort'' (map_option JStr (sort p)) queryParams;
          queryParams = set_if_truthy ''perpage'' (map_option JNum (perpage p)) queryParams;
          queryParams = set_if_truthy ''page'' (map_option JNum (page p)) queryParams;
          queryParams = (case tag p of
                           None \<Rightarrow> queryParams
                         | Some ts \<Rightarrow> if length ts > 0
                                      then AList.update ''tag'' (strings ts) queryParams
                                      else queryParams)
      in queryParams)"

definition createRaindrop_data :: "CreateRaindropParams \<Rightarrow> (string \<times> json) list" where
  "createRaindrop_data p =
     (let data = [(''link'', JStr (link p)), (''pleaseParse'', JObj [])];
          data = set_if_truthy ''title'' (map_option JStr (CreateRaindropParams.title p)) data;
          data = set_if_truthy ''excerpt'' (map_option JStr (CreateRaindropParams.excerpt p)) data;
          data = set_if_truthy ''note'' (map_option JStr (CreateRaindropParams.note' p)) data;
          data = set_if_truthy ''tags'' (map_option strings (CreateRaindropParams.tags p)) data;
          data = set_if_defined ''important'' (map_option JBool (CreateRaindropParams.important p)) data;
          collectionId = or_zero (CreateRaindropParams.collectionId p);
          data = (if collectionId \<noteq> 0
                  then AList.update ''collection'' (JObj [(''$id'', JNum collectionId)]) data
                  else data)
      in data)"

definition updateRaindrop_data :: "UpdateRaindropParams \<Rightarrow> (string \<times> json) list" where
  "updateRaindrop_data p =
     (let data = [];
          data = set_if_defined ''title'' (map_option JStr (UpdateRaindropParams.title p)) data;
          data = set_if_defined ''excerpt'' (map_option JStr (UpdateRaindropParams.excerpt p)) data;
          data = set_if_defined ''note'' (map_option JStr (UpdateRaindropParams.note' p)) data;
          data = set_if_defined ''tags'' (map_option strings (UpdateRaindropParams.tags p)) data;
          data = set_if_defined ''important'' (map_option JBool (UpdateRaindropParams.important p)) data;
          data = (case UpdateRaindropParams.collectionId p of
                    None \<Rightarrow> data
                  | Some c \<Rightarrow> AList.update ''collection'' (JObj [(''$id'', JNum c)]) data)
      in data)"

definition createCollection_data :: "CreateCollectionParams \<Rightarrow> (string \<times> json) list" where
  "createCollection_data p =
     (let data = [(''title'', JStr (CreateCollectionParams.title p))];
          data = set_if_truthy ''description'' (map_option JStr (CreateCollectionParams.description p)) data;
          data = set_if_defined ''public'' (map_option JBool (CreateCollectionParams.public p)) data;
          data = set_if_truthy ''view'' (map_option JStr (CreateCollectionParams.view p)) data;
          data = (case CreateCollectionParams.parent p of
                    None \<Rightarrow> data
                  | Some n \<Rightarrow> if n \<noteq> 0
                              then AList.update ''parent'' (JObj [(''$id'', JNum n)]) data
                              else data)
      in data)"

definition updateCollection_data :: "UpdateCollectionParams \<Rightarrow> (string \<times> json) list" where
  "updateCollection_data p =
     (let data = [];
          data = set_if_defined ''title'' (map_option JStr (UpdateCollectionParams.title p)) data;
          data = set_if_defined ''description'' (map_option JStr (UpdateCollectionParams.description p)) data;
          data = set_if_defined ''public'' (map_option JBool (UpdateCollectionParams.public p)) data;
          data = set_if_defined ''view'' (map_option JStr (UpdateCollectionParams.view p)) data;
          data = (case UpdateCollectionParams.parent p of
                    None \<Rightarrow> data
                  | Some n \<Rightarrow> AList.update ''parent'' (JObj [(''$id'', JNum n)]) data)
      in data)"

subsection \<open>The operations\<close>

text \<open>
  One constructor per method of the client, with the arguments of the call. The search
  parameters are optional: the method's default is the empty parameter object.
\<close>

datatype operation =
    getRaindrop int
  | searchRaindrops "SearchParams option"
  | createRaindrop CreateRaindropParams
  | updateRaindrop int UpdateRaindropParams
  | deleteRaindrop int
  | getCollections
  | getCollection int
  | createCollection CreateCollectionParams
  | updateCollection int UpdateCollectionParams
  | deleteCollection int
  | getTags
  | deleteTag string
  | renameTag string string
  | getUser

definition no_SearchParams :: SearchParams where
  "no_SearchParams =
     \<lparr>SearchParams.collectionId = None, search = None, sort = None, perpage = None,
      page = None, tag = None\<rparr>"

text \<open>The request each method hands to axios.\<close>

fun operation_request :: "request_config \<Rightarrow> operation \<Rightarrow> request_config" where
  "operation_request client (getRaindrop ident) =
     axios_get client (''/raindrop/'' @ number_string ident) []"
| "operation_request client (searchRaindrops p) =
     (let q = (case p of None \<Rightarrow> no_SearchParams | Some q \<Rightarrow> q);
          collectionId = or_zero (SearchParams.collectionId q)
      in axios_get client (''/raindrops/'' @ number_string collectionId)
           (searchRaindrops_queryParams q))"
| "operation_request client (createRaindrop p) =
     axios_post client ''/raindrop'' (JObj (createRaindrop_data p))"
| "operation_request client (updateRaindrop ident p) =
     axios_put client (''/raindrop/'' @ number_string ident) (JObj (updateRaindrop_data p))"
| "operation_request client (deleteRaindrop ident) =
     axios_delete client (''/raindrop/'' @ number_string ident) None"
| "operation_request client getCollections = axios_get client ''/collections'' []"
| "operation_request client (getCollection ident) =
     axios_get client (''/collection/'' @ number_string ident) []"
| "operation_request client (createCollection p) =
     axios_post client ''/collection'' (JObj (createCollection_data p))"
| "operation_request client (updateCollection ident p) =
     axios_put client (''/collection/'' @ number_string ident) (JObj (updateCollection_data p))"
| "operation_request client (deleteCollection ident) =
     axios_delete client (''/collection/'' @ number_string ident) None"
| "operation_request client getTags = axios_get client ''/tags'' []"
| "operation_request client (deleteTag tagName) =
     axios_delete client ''/tag'' (Some (JObj [(''tags'', JArr [JStr tagName])]))"
| "operation_request client (renameTag oldName newName) =
     axios_put client ''/tags''
       (JObj [(''replace'', JArr [JObj [(''old'', JStr oldName), (''new'', JStr newName)]])])"
| "operation_request client getUser = axios_get client ''/user'' []"

text \<open>
  What is thrown to the caller of a method: the \<^verbatim>\<open>Error\<close> of the interceptor, with its
  formatted message, or the engine's \<^verbatim>\<open>TypeError\<close> when a property of a null response
  body is read (its message is the engine's wording).
\<close>

datatype thrown = Error string | TypeError string

fun error_message :: "thrown \<Rightarrow> string" where
  "error_message (Error m) = m"
| "error_message (TypeError m) = m"

text \<open>\<^verbatim>\<open>v.k\<close> on a response body, for a property name no built-in prototype defines.\<close>

fun property :: "json \<Rightarrow> string \<Rightarrow> thrown + json option" where
  "property JNull k =
     Inl (TypeError (''Cannot read properties of null (reading '' @ [CHR 0x27] @ k @ [CHR 0x27] @ '')''))"
| "property (JObj kvs) k = Inr (map_of kvs k)"
| "property v k = Inr None"

text \<open>
  The value a method returns from the response; \<open>None\<close> is \<^verbatim>\<open>undefined\<close>, which is also
  what the methods declared \<^verbatim>\<open>Promise<void>\<close> return. The search result is the object of
  the two properties read, an undefined one left out.
\<close>

fun operation_result :: "operation \<Rightarrow> http_response \<Rightarrow> thrown + json option" where
  "operation_result (getRaindrop ident) r = property (data r) ''item''"
| "operation_result (searchRaindrops p) r =
     (case property (data r) ''items'' of
        Inl e \<Rightarrow> Inl e
      | Inr items \<Rightarrow>
          (case property (data r) ''count'' of
             Inl e \<Rightarrow> Inl e
           | Inr count \<Rightarrow>
               Inr (Some (JObj (set_if_defined ''count'' count (set_if_defined ''items'' items []))))))"
| "operation_result (createRaindrop p) r = property (data r) ''item''"
| "operation_result (updateRaindrop ident p) r = property (data r) ''item''"
| "operation_result (deleteRaindrop ident) r = Inr None"
| "operation_result getCollections r = property (data r) ''items''"
| "operation_result (getCollection ident) r = property (data r) ''item''"
| "operation_result (createCollection p) r = property (data r) ''item''"
| "operation_result (updateCollection ident p) r = property (data r) ''item''"
| "operation_result (deleteCollection ident) r = Inr None"
| "operation_result getTags r = property (data r) ''items''"
| "operation_result (deleteTag tagName) r = Inr None"
| "operation_result (renameTag oldName newName) r = Inr None"
| "operation_result getUser r = property (data r) ''user''"

text \<open>A call of a method: the request goes through the retry loop, then the result is read.\<close>

definition perform ::
  "(nat \<Rightarrow> outcome) \<Rightarrow> request_config \<Rightarrow> operation \<Rightarrow> (thrown + json option) \<times> event list" where
  "perform net client op =
     (case request net 0 (operation_request client op) of
        (Inl m, evs) \<Rightarrow> (Inl (Error m), evs)
      | (Inr r, evs) \<Rightarrow> (operation_result op r, evs))"

section \<open>The dispatcher\<close>

subsection \<open>The tool catalogue\<close>

text \<open>
  The descriptors of the fourteen tools, in the order of the source, each with its
  parameter schema as a JSON value. The handlers read only the names.
\<close>

record tool =
  name :: string
  description :: string
  inputSchema :: json

definition tools :: "tool list" where
  "tools =
     [\<lparr>name = ''search_bookmarks'',
       description = ''Search and list bookmarks (raindrops) with optional filters. Can search by keyword, tag, collection, or list all bookmarks.'',
       inputSchema =
         JObj
           [(''type'', JStr ''object''),
            (''properties'', JObj
             [(''search'', JObj
               [(''type'', JStr ''string''),
                (''description'', JStr ''Search query to filter bookmarks'')]),
              (''collectionId'', JObj
               [(''type'', JStr ''number''),
                (''description'', JStr ''Collection ID to search within (0 for all bookmarks, -1 for unsorted)'')]),
              (''tag'', JObj
               [(''type'', JStr ''array''),
                (''items'', JObj
                 [(''type'', JStr ''string'')]),
                (''description'', JStr ''Filter by tags'')]),
              (''sort'', JObj
               [(''type'', JStr ''string''),
                (''description'', JStr ''Sort order: -created (newest), created (oldest), -sort (manually), title, -title, domain, -domain''),
                (''enum'', JArr [JStr ''-created'', JStr ''created'', JStr ''-sort'', JStr ''title'', JStr ''-title'', JStr ''domain'', JStr ''-domain''])]),
              (''page'', JObj
               [(''type'', JStr ''number''),
                (''description'', JStr ''Page number for pagination (0-indexed)'')]),
              (''perpage'', JObj
               [(''type'', JStr ''number''),
                (''description'', JStr ''Number of results per page (max 50)'')])])]\<rparr>,
      \<lparr>name = ''get_bookmark'',
       description = ''Get details of a specific bookmark by ID'',
       inputSchema =
         JObj
           [(''type'', JStr ''object''),
            (''properties'', JObj
             [(''id'', JObj
               [(''type'', JStr ''number''),
                (''description'', JStr ''The bookmark ID'')])]),
            (''required'', JArr [JStr ''id''])]\<rparr>,
      \<lparr>name = ''create_bookmark'',
       description = ''Create a new bookmark (raindrop). Requires at minimum a URL.'',
       inputSchema =
         JObj
           [(''type'', JStr ''object''),
            (''properties'', JObj
             [(''link'', JObj
               [(''type'', JStr ''string''),
                (''description'', JStr ''URL of the bookmark (required)'')]),
              (''title'', JObj
               [(''type'', JStr ''string''),
                (''description'', JStr ''Custom title for the bookmark'')]),
              (''excerpt'', JObj
               [(''type'', JStr ''string''),
                (''description'', JStr ''Short description/excerpt'')]),
              (''note'', JObj
               [(''type'', JStr ''string''),
                (''description'', JStr ''Personal note about the bookmark'')]),
              (''tags'', JObj
               [(''type'', JStr ''array''),
                (''items'', JObj
                 [(''type'', JStr ''string'')]),
                (''description'', JStr ''Tags to organize the bookmark'')]),
              (''collectionId'', JObj
               [(''type'', JStr ''number''),
                (''description'', JStr ''Collection ID to add bookmark to (0 for unsorted, -1 for trash)'')]),
              (''important'', JObj
               [(''type'', JStr ''boolean''),
                (''description'', JStr ''Mark as favorite/important'')])]),
            (''required'', JArr [JStr ''link''])]\<rparr>,
      \<lparr>name = ''update_bookmark'',
       description = ''Update an existing bookmark. Only provide fields you want to change.'',
       inputSchema =
         JObj
           [(''type'', JStr ''object''),
            (''properties'', JObj
             [(''id'', JObj
               [(''type'', JStr ''number''),
                (''description'', JStr ''The bookmark ID to update'')]),
              (''title'', JObj
               [(''type'', JStr ''string''),
                (''description'', JStr ''New title'')]),
              (''excerpt'', JObj
               [(''type'', JStr ''string''),
                (''description'', JStr ''New excerpt/description'')]),
              (''note'', JObj
               [(''type'', JStr ''string''),
                (''description'', JStr ''New note'')]),
              (''tags'', JObj
               [(''type'', JStr ''array''),
                (''items'', JObj
                 [(''type'', JStr ''string'')]),
                (''description'', JStr ''New tags (replaces existing tags)'')]),
              (''collectionId'', JObj
               [(''type'', JStr ''number''),
                (''description'', JStr ''Move to different collection'')]),
              (''important'', JObj
               [(''type'', JStr ''boolean''),
                (''description'', JStr ''Update favorite status'')])]),
            (''required'', JArr [JStr ''id''])]\<rparr>,
      \<lparr>name = ''delete_bookmark'',
       description = ''Delete a bookmark permanently'',
       inputSchema =
         JObj
           [(''type'', JStr ''object''),
            (''properties'', JObj
             [(''id'', JObj
               [(''type'', JStr ''number''),
                (''description'', JStr ''The bookmark ID to delete'')])]),
            (''required'', JArr [JStr ''id''])]\<rparr>,
      \<lparr>name = ''list_collections'',
       description = ''List all collections (folders) in your Raindrop.io account'',
       inputSchema =
         JObj
           [(''type'', JStr ''object''),
            (''properties'', JObj [])]\<rparr>,
      \<lparr>name = ''get_collection'',
       description = ''Get details of a specific collection by ID'',
       inputSchema =
         JObj
           [(''type'', JStr ''object''),
            (''properties'', JObj
             [(''id'', JObj
               [(''type'', JStr ''number''),
                (''description'', JStr ''The collection ID'')])]),
            (''required'', JArr [JStr ''id''])]\<rparr>,
      \<lparr>name = ''create_collection'',
       description = ''Create a new collection (folder) to organize bookmarks'',
       inputSchema =
         JObj
           [(''type'', JStr ''object''),
            (''properties'', JObj
             [(''title'', JObj
               [(''type'', JStr ''string''),
                (''description'', JStr ''Collection title (required)'')]),
              (''description'', JObj
               [(''type'', JStr ''string''),
                (''description'', JStr ''Collection description'')]),
              (''public'', JObj
               [(''type'', JStr ''boolean''),
                (''description'', JStr ''Make collection public'')]),
              (''view'', JObj
               [(''type'', JStr ''string''),
                (''description'', JStr ''View type: list, simple, grid, masonry''),
                (''enum'', JArr [JStr ''list'', JStr ''simple'', JStr ''grid'', JStr ''masonry''])]),
              (''parent'', JObj
               [(''type'', JStr ''number''),
                (''description'', JStr ''Parent collection ID for nesting'')])]),
            (''required'', JArr [JStr ''title''])]\<rparr>,
      \<lparr>name = ''update_collection'',
       description = ''Update an existing collection. Only provide fields you want to change.'',
       inputSchema =
         JObj
           [(''type'', JStr ''object''),
            (''properties'', JObj
             [(''id'', JObj
               [(''type'', JStr ''number''),
                (''description'', JStr ''The collection ID to update'')]),
              (''title'', JObj
               [(''type'', JStr ''string''),
                (''description'', JStr ''New title'')]),
              (''description'', JObj
               [(''type'', JStr ''string''),
                (''description'', JStr ''New description'')]),
              (''public'', JObj
               [(''type'', JStr ''boolean''),
                (''description'', JStr ''Update public status'')]),
              (''view'', JObj
               [(''type'', JStr ''string''),
                (''description'', JStr ''View type: list, simple, grid, masonry''),
                (''enum'', JArr [JStr ''list'', JStr ''simple'', JStr ''grid'', JStr ''masonry''])]),
              (''parent'', JObj
               [(''type'', JStr ''number''),
                (''description'', JStr ''Move to different parent collection'')])]),
            (''required'', JArr [JStr ''id''])]\<rparr>,
      \<lparr>name = ''delete_collection'',
       description = ''Delete a collection permanently. Bookmarks inside will be moved to Unsorted.'',
       inputSchema =
         JObj
           [(''type'', JStr ''object''),
            (''properties'', JObj
             [(''id'', JObj
               [(''type'', JStr ''number''),
                (''description'', JStr ''The collection ID to delete'')])]),
            (''required'', JArr [JStr ''id''])]\<rparr>,
      \<lparr>name = ''list_tags'',
       description = ''List all tags used in your bookmarks with their counts'',
       inputSchema =
         JObj
           [(''type'', JStr ''object''),
            (''properties'', JObj [])]\<rparr>,
      \<lparr>name = ''rename_tag'',
       description = ''Rename a tag across all bookmarks'',
       inputSchema =
         JObj
           [(''type'', JStr ''object''),
            (''properties'', JObj
             [(''oldName'', JObj
               [(''type'', JStr ''string''),
                (''description'', JStr ''Current tag name'')]),
              (''newName'', JObj
               [(''type'', JStr ''string''),
                (''description'', JStr ''New tag name'')])]),
            (''required'', JArr [JStr ''oldName'', JStr ''newName''])]\<rparr>,
      \<lparr>name = ''delete_tag'',
       description = ''Delete a tag from all bookmarks'',
       inputSchema =
         JObj
           [(''type'', JStr ''object''),
            (''properties'', JObj
             [(''tagName'', JObj
               [(''type'', JStr ''string''),
                (''description'', JStr ''Tag name to delete'')])]),
            (''required'', JArr [JStr ''tagName''])]\<rparr>,
      \<lparr>name = ''get_user_info'',
       description = ''Get current user account information'',
       inputSchema =
         JObj
           [(''type'', JStr ''object''),
            (''properties'', JObj [])]\<rparr>]"

text \<open>\<^verbatim>\<open>xs.join(', ')\<close>.\<close>

fun join :: "string list \<Rightarrow> string" where
  "join [] = []"
| "join [x] = x"
| "join (x # y # ys) = x @ '', '' @ join (y # ys)"

subsection \<open>Requests and responses\<close>

text \<open>
  A call request carries the tool name and the argument bag, which may be missing. A
  response is a list of content blocks (the field \<^verbatim>\<open>text\<close> is written \<open>text'\<close>) and the
  error flag, which a successful response does not set. The text of a block is \<open>None\<close>
  when the code assigns \<^verbatim>\<open>undefined\<close> to it.
\<close>

type_synonym bag = "(string \<times> json) list"

record call_request =
  name :: string
  arguments :: "bag option"

record content_block =
  type :: string
  text' :: "string option"

record tool_response =
  content :: "content_block list"
  isError :: "bool option"

definition text_response :: "string option \<Rightarrow> tool_response" where
  "text_response t = \<lparr>content = [\<lparr>type = ''text'', text' = t\<rparr>], isError = None\<rparr>"

definition error_response :: "string \<Rightarrow> tool_response" where
  "error_response t = \<lparr>content = [\<lparr>type = ''text'', text' = Some t\<rparr>], isError = Some True\<rparr>"

subsection \<open>Built-ins of the engine\<close>

text \<open>
  Two built-ins are parameters of the dispatcher: \<^verbatim>\<open>JSON.stringify(v, null, 2)\<close> on a JSON
  value, and the conversion of a string to a number, of which only one use is made:
  whether the number is greater than 0.
\<close>

record engine =
  stringify :: "json \<Rightarrow> string"
  positive :: "string \<Rightarrow> bool"

text \<open>
  \<^verbatim>\<open>v.length\<close> of a value other than null: the number of elements of an array, the length of
  a string (its count of characters here; only whether it is 0 is ever used), the property
  of that name of an object, and \<^verbatim>\<open>undefined\<close> otherwise.
\<close>

fun length_property :: "json \<Rightarrow> json option" where
  "length_property (JArr xs) = Some (JNum (int (length xs)))"
| "length_property (JStr s) = Some (JNum (int (length s)))"
| "length_property (JObj kvs) = map_of kvs ''length''"
| "length_property v = None"

text \<open>
  \<^verbatim>\<open>v > 0\<close>: \<^verbatim>\<open>undefined\<close> and null are not, \<^verbatim>\<open>true\<close> is, a string is converted by the
  engine, an array is joined to a string first, an object converts to no number.
\<close>

fun greater_than_zero :: "(string \<Rightarrow> bool) \<Rightarrow> json option \<Rightarrow> bool" where
  "greater_than_zero pos None = False"
| "greater_than_zero pos (Some JNull) = False"
| "greater_than_zero pos (Some (JBool b)) = b"
| "greater_than_zero pos (Some (JNum n)) = (n > 0)"
| "greater_than_zero pos (Some (JStr s)) = pos s"
| "greater_than_zero pos (Some (JArr xs)) = pos (join_elements xs)"
| "greater_than_zero pos (Some (JObj kvs)) = False"

text \<open>The messages of the engine's \<^verbatim>\<open>TypeError\<close> for a missing argument bag (its wording).\<close>

definition quoted :: "string \<Rightarrow> string" where
  "quoted s = [CHR 0x27] @ s @ [CHR 0x27]"

definition cannot_destructure :: "string \<Rightarrow> thrown" where
  "cannot_destructure k =
     TypeError (''Cannot destructure property '' @ quoted k @ '' of '' @ quoted ''args'' @
                '' as it is undefined.'')"

definition cannot_read :: "string \<Rightarrow> thrown" where
  "cannot_read k = TypeError (''Cannot read properties of undefined (reading '' @ quoted k @ '')'')"

subsection \<open>The client as the dispatcher calls it\<close>

text \<open>
  Each case of the dispatcher casts the argument bag to the parameter type of its tool
  and passes it on; the cast checks nothing. So a method of the client receives whatever
  the bag holds: a field may be missing or hold a value of any type. These are the methods
  of the client on such arguments, statement by statement as above, with the values of the
  bag in place of the typed fields. A property whose value is \<^verbatim>\<open>undefined\<close> is not part of
  the body sent; an \<^verbatim>\<open>undefined\<close> element of an array is sent as null.
\<close>

definition unchecked_searchRaindrops ::
  "(string \<Rightarrow> bool) \<Rightarrow> request_config \<Rightarrow> bag option \<Rightarrow> request_config" where
  "unchecked_searchRaindrops pos client args =
     (let p = (case args of None \<Rightarrow> [] | Some a \<Rightarrow> a);
          collectionId = or_else (map_of p ''collectionId'') (Some (JNum 0));
          queryParams = [];
          queryParams = set_if_truthy ''search'' (map_of p ''search'') queryParams;
          queryParams = set_if_truthy ''sort'' (map_of p ''sort'') queryParams;
          queryParams = set_if_truthy ''perpage'' (map_of p ''perpage'') queryParams;
          queryParams = set_if_truthy ''page'' (map_of p ''page'') queryParams;
          queryParams = (case map_of p ''tag'' of
                           None \<Rightarrow> queryParams
                         | Some t \<Rightarrow> if truthy t \<and> greater_than_zero pos (length_property t)
                                     then AList.update ''tag'' t queryParams
                                     else queryParams)
      in axios_get client (''/raindrops/'' @ template collectionId) queryParams)"

definition unchecked_createRaindrop :: "request_config \<Rightarrow> bag option \<Rightarrow> thrown + request_config" where
  "unchecked_createRaindrop client args =
     (case args of
        None \<Rightarrow> Inl (cannot_read ''link'')
      | Some p \<Rightarrow>
          (let data = AList.update ''pleaseParse'' (JObj []) (set_if_defined ''link'' (map_of p ''link'') []);
               data = set_if_truthy ''title'' (map_of p ''title'') data;
               data = set_if_truthy ''excerpt'' (map_of p ''excerpt'') data;
               data = set_if_truthy ''note'' (map_of p ''note'') data;
               data = set_if_truthy ''tags'' (map_of p ''tags'') data;
               data = set_if_defined ''important'' (map_of p ''important'') data;
               collectionId = or_else (map_of p ''collectionId'') (Some (JNum 0));
               data = (case collectionId of
                         None \<Rightarrow> data
                       | Some c \<Rightarrow> if c \<noteq> JNum 0
                                   then AList.update ''collection'' (JObj [(''$id'', c)]) data
                                   else data)
           in Inr (axios_post client ''/raindrop'' (JObj data))))"

definition unchecked_updateRaindrop :: "request_config \<Rightarrow> json option \<Rightarrow> bag \<Rightarrow> request_config" where
  "unchecked_updateRaindrop client ident p =
     (let data = [];
          data = set_if_defined ''title'' (map_of p ''title'') data;
          data = set_if_defined ''excerpt'' (map_of p ''excerpt'') data;
          data = set_if_defined ''note'' (map_of p ''note'') data;
          data = set_if_defined ''tags'' (map_of p ''tags'') data;
          data = set_if_defined ''important'' (map_of p ''important'') data;
          data = (case map_of p ''collectionId'' of
                    None \<Rightarrow> data
                  | Some c \<Rightarrow> AList.update ''collection'' (JObj [(''$id'', c)]) data)
      in axios_put client (''/raindrop/'' @ template ident) (JObj data))"

definition unchecked_createCollection :: "request_config \<Rightarrow> bag option \<Rightarrow> thrown + request_config" where
  "unchecked_createCollection client args =
     (case args of
        None \<Rightarrow> Inl (cannot_read ''title'')
      | Some p \<Rightarrow>
          (let data = set_if_defined ''title'' (map_of p ''title'') [];
               data = set_if_truthy ''description'' (map_of p ''description'') data;
               data = set_if_defined ''public'' (map_of p ''public'') data;
               data = set_if_truthy ''view'' (map_of p ''view'') data;
               data = (case map_of p ''parent'' of
                         None \<Rightarrow> data
                       | Some n \<Rightarrow> if truthy n
                                   then AList.update ''parent'' (JObj [(''$id'', n)]) data
                                   else data)
           in Inr (axios_post client ''/collection'' (JObj data))))"

definition unchecked_updateCollection :: "request_config \<Rightarrow> json option \<Rightarrow> bag \<Rightarrow> request_config" where
  "unchecked_updateCollection client ident p =
     (let data = [];
          data = set_if_defined ''title'' (map_of p ''title'') data;
          data = set_if_defined ''description'' (map_of p ''description'') data;
          data = set_if_defined ''public'' (map_of p ''public'') data;
          data = set_if_defined ''view'' (map_of p ''view'') data;
          data = (case map_of p ''parent'' of
                    None \<Rightarrow> data
                  | Some n \<Rightarrow> AList.update ''parent'' (JObj [(''$id'', n)]) data)
      in axios_put client (''/collection/'' @ template ident) (JObj data))"

definition unchecked_deleteTag :: "request_config \<Rightarrow> json option \<Rightarrow> request_config" where
  "unchecked_deleteTag client tagName =
     axios_delete client ''/tag''
       (Some (JObj [(''tags'', JArr [case tagName of None \<Rightarrow> JNull | Some t \<Rightarrow> t])]))"

definition unchecked_renameTag :: "request_config \<Rightarrow> json option \<Rightarrow> json option \<Rightarrow> request_config" where
  "unchecked_renameTag client oldName newName =
     axios_put client ''/tags''
       (JObj [(''replace'', JArr [JObj (set_if_defined ''new'' newName (set_if_defined ''old'' oldName []))])])"

text \<open>The part of the response a method returns.\<close>

definition item :: "http_response \<Rightarrow> thrown + json option" where
  "item r = property (data r) ''item''"

definition items :: "http_response \<Rightarrow> thrown + json option" where
  "items r = property (data r) ''items''"

definition user :: "http_response \<Rightarrow> thrown + json option" where
  "user r = property (data r) ''user''"

definition nothing :: "http_response \<Rightarrow> thrown + json option" where
  "nothing r = Inr None"

definition items_and_count :: "http_response \<Rightarrow> thrown + json option" where
  "items_and_count r =
     (case property (data r) ''items'' of
        Inl e \<Rightarrow> Inl e
      | Inr is \<Rightarrow>
          (case property (data r) ''count'' of
             Inl e \<Rightarrow> Inl e
           | Inr count \<Rightarrow>
               Inr (Some (JObj (set_if_defined ''count'' count (set_if_defined ''items'' is []))))))"

text \<open>Awaiting a method: the request through the retry loop, then the reading of the response.\<close>

definition await ::
  "(nat \<Rightarrow> outcome) \<Rightarrow> request_config \<Rightarrow> (http_response \<Rightarrow> thrown + json option) \<Rightarrow>
     (thrown + json option) \<times> event list" where
  "await net cfg reading =
     (case request net 0 cfg of
        (Inl m, evs) \<Rightarrow> (Inl (Error m), evs)
      | (Inr r, evs) \<Rightarrow> (reading r, evs))"

subsection \<open>The handlers\<close>

text \<open>
  What a case of the \<^verbatim>\<open>switch\<close> does with the outcome of the method: a throw passes on (to
  the \<^verbatim>\<open>catch\<close>), a result is returned in a text response.
\<close>

definition respond ::
  "(json option \<Rightarrow> string option) \<Rightarrow> (thrown + json option) \<times> event list \<Rightarrow>
     (thrown + tool_response) \<times> event list" where
  "respond render out =
     (case out of
        (Inl e, evs) \<Rightarrow> (Inl e, evs)
      | (Inr v, evs) \<Rightarrow> (Inr (text_response (render v)), evs))"

text \<open>\<^verbatim>\<open>const { k, ... } = args\<close>: a \<^verbatim>\<open>TypeError\<close> when there is no bag.\<close>

definition destructure ::
  "bag option \<Rightarrow> string \<Rightarrow> (bag \<Rightarrow> (thrown + tool_response) \<times> event list) \<Rightarrow>
     (thrown + tool_response) \<times> event list" where
  "destructure args k continue =
     (case args of None \<Rightarrow> (Inl (cannot_destructure k), []) | Some a \<Rightarrow> continue a)"

text \<open>
  The body of the \<^verbatim>\<open>try\<close>: the \<^verbatim>\<open>switch\<close> on the tool name. It returns a response or throws,
  with the events of the remote calls made. The update cases pass the bag without its
  \<^verbatim>\<open>id\<close> to the client; the methods read no field of that name, so the bag itself stands
  for it here. The four methods that only build a path are written out in their case.
\<close>

definition try_switch ::
  "engine \<Rightarrow> (nat \<Rightarrow> outcome) \<Rightarrow> request_config \<Rightarrow> string \<Rightarrow> bag option \<Rightarrow>
     (thrown + tool_response) \<times> event list" where
  "try_switch eng net client tool_name args =
     (if tool_name = ''search_bookmarks'' then
        respond (map_option (stringify eng))
          (await net (unchecked_searchRaindrops (positive eng) client args) items_and_count)
      else if tool_name = ''get_bookmark'' then
        destructure args ''id'' (\<lambda>a.
          respond (map_option (stringify eng))
            (await net (axios_get client (''/raindrop/'' @ template (map_of a ''id'')) []) item))
      else if tool_name = ''create_bookmark'' then
        (case unchecked_createRaindrop client args of
           Inl e \<Rightarrow> (Inl e, [])
         | Inr cfg \<Rightarrow> respond (map_option (stringify eng)) (await net cfg item))
      else if tool_name = ''update_bookmark'' then
        destructure args ''id'' (\<lambda>a.
          respond (map_option (stringify eng))
            (await net (unchecked_updateRaindrop client (map_of a ''id'') a) item))
      else if tool_name = ''delete_bookmark'' then
        destructure args ''id'' (\<lambda>a.
          respond (\<lambda>v. Some (''Bookmark '' @ template (map_of a ''id'') @ '' deleted successfully''))
            (await net (axios_delete client (''/raindrop/'' @ template (map_of a ''id'')) None) nothing))
      else if tool_name = ''list_collections'' then
        respond (map_option (stringify eng)) (await net (axios_get client ''/collections'' []) items)
      else if tool_name = ''get_collection'' then
        destructure args ''id'' (\<lambda>a.
          respond (map_option (stringify eng))
            (await net (axios_get client (''/collection/'' @ template (map_of a ''id'')) []) item))
      else if tool_name = ''create_collection'' then
        (case unchecked_createCollection client args of
           Inl e \<Rightarrow> (Inl e, [])
         | Inr cfg \<Rightarrow> respond (map_option (stringify eng)) (await net cfg item))
      else if tool_name = ''update_collection'' then
        destructure args ''id'' (\<lambda>a.
          respond (map_option (stringify eng))
            (await net (unchecked_updateCollection client (map_of a ''id'') a) item))
      else if tool_name = ''delete_collection'' then
        destructure args ''id'' (\<lambda>a.
          respond (\<lambda>v. Some (''Collection '' @ template (map_of a ''id'') @ '' deleted successfully''))
            (await net (axios_delete client (''/collection/'' @ template (map_of a ''id'')) None) nothing))
      else if tool_name = ''list_tags'' then
        respond (map_option (stringify eng)) (await net (axios_get client ''/tags'' []) items)
      else if tool_name = ''rename_tag'' then
        destructure args ''oldName'' (\<lambda>a.
          respond (\<lambda>v. Some (''Tag renamed from '' @ [CHR 0x22] @ template (map_of a ''oldName'') @
                              [CHR 0x22] @ '' to '' @ [CHR 0x22] @ template (map_of a ''newName'') @
                              [CHR 0x22] @ '' successfully''))
            (await net (unchecked_renameTag client (map_of a ''oldName'') (map_of a ''newName'')) nothing))
      else if tool_name = ''delete_tag'' then
        destructure args ''tagName'' (\<lambda>a.
          respond (\<lambda>v. Some (''Tag '' @ [CHR 0x22] @ template (map_of a ''tagName'') @ [CHR 0x22] @
                              '' deleted successfully''))
            (await net (unchecked_deleteTag client (map_of a ''tagName'')) nothing))
      else if tool_name = ''get_user_info'' then
        respond (map_option (stringify eng)) (await net (axios_get client ''/user'' []) user)
      else
        (Inr (error_response
                (''Unknown tool: '' @ tool_name @ ''. Available tools: '' @
                 join (map tool.name tools) @ ''. DO NOT RETRY with the same tool name.'')),
         []))"

text \<open>
  The handler of a list request: it throws while the server shuts down, and returns the
  catalogue otherwise.
\<close>

definition ListTools :: "bool \<Rightarrow> thrown + tool list" where
  "ListTools isShuttingDown =
     (if isShuttingDown then Inl (Error ''Server is shutting down. Please wait and try again.'')
      else Inr tools)"

text \<open>
  The handler of a call request, with the events of the remote calls it made: the
  shutdown guard, then the \<^verbatim>\<open>try\<close>, whose every throw the \<^verbatim>\<open>catch\<close> turns into a response.
\<close>

definition CallTool ::
  "engine \<Rightarrow> (nat \<Rightarrow> outcome) \<Rightarrow> request_config \<Rightarrow> bool \<Rightarrow> call_request \<Rightarrow>
     tool_response \<times> event list" where
  "CallTool eng net client isShuttingDown req =
     (if isShuttingDown then
        (error_response
           ''Error: Server is shutting down. Please wait and try again. DO NOT RETRY immediately.'',
         [])
      else
        (case try_switch eng net client (call_request.name req) (arguments req) of
           (Inr result, evs) \<Rightarrow> (result, evs)
         | (Inl error, evs) \<Rightarrow> (error_response (''Error: '' @ error_message error), evs)))"

subsection \<open>Calls of the declared shape\<close>

text \<open>
  The call request that invokes an operation of the client with arguments of the declared
  types: the name of its tool, and the bag that holds each given field under its name.
\<close>

definition field :: "string \<Rightarrow> json option \<Rightarrow> bag" where
  "field k v = (case v of None \<Rightarrow> [] | Some x \<Rightarrow> [(k, x)])"

definition bag_of_SearchParams :: "SearchParams \<Rightarrow> bag" where
  "bag_of_SearchParams p =
     field ''collectionId'' (map_option JNum (SearchParams.collectionId p)) @
     field ''search'' (map_option JStr (search p)) @
     field ''sort'' (map_option JStr (sort p)) @
     field ''perpage'' (map_option JNum (perpage p)) @
     field ''page'' (map_option JNum (page p)) @
     field ''tag'' (map_option strings (tag p))"

definition bag_of_CreateRaindropParams :: "CreateRaindropParams \<Rightarrow> bag" where
  "bag_of_CreateRaindropParams p =
     [(''link'', JStr (link p))] @
     field ''title'' (map_option JStr (CreateRaindropParams.title p)) @
     field ''excerpt'' (map_option JStr (CreateRaindropParams.excerpt p)) @
     field ''note'' (map_option JStr (CreateRaindropParams.note' p)) @
     field ''tags'' (map_option strings (CreateRaindropParams.tags p)) @
     field ''collectionId'' (map_option JNum (CreateRaindropParams.collectionId p)) @
     field ''important'' (map_option JBool (CreateRaindropParams.important p))"

definition bag_of_UpdateRaindropParams :: "UpdateRaindropParams \<Rightarrow> bag" where
  "bag_of_UpdateRaindropParams p =
     field ''title'' (map_option JStr (UpdateRaindropParams.title p)) @
     field ''excerpt'' (map_option JStr (UpdateRaindropParams.excerpt p)) @
     field ''note'' (map_option JStr (UpdateRaindropParams.note' p)) @
     field ''tags'' (map_option strings (UpdateRaindropParams.tags p)) @
     field ''collectionId'' (map_option JNum (UpdateRaindropParams.collectionId p)) @
     field ''important'' (map_option JBool (UpdateRaindropParams.important p))"

definition bag_of_CreateCollectionParams :: "CreateCollectionParams \<Rightarrow> bag" where
  "bag_of_CreateCollectionParams p =
     [(''title'', JStr (CreateCollectionParams.title p))] @
     field ''description'' (map_option JStr (CreateCollectionParams.description p)) @
     field ''public'' (map_option JBool (CreateCollectionParams.public p)) @
     field ''view'' (map_option JStr (CreateCollectionParams.view p)) @
     field ''parent'' (map_option JNum (CreateCollectionParams.parent p))"

definition bag_of_UpdateCollectionParams :: "UpdateCollectionParams \<Rightarrow> bag" where
  "bag_of_UpdateCollectionParams p =
     field ''title'' (map_option JStr (UpdateCollectionParams.title p)) @
     field ''description'' (map_option JStr (UpdateCollectionParams.description p)) @
     field ''public'' (map_option JBool (UpdateCollectionParams.public p)) @
     field ''view'' (map_option JStr (UpdateCollectionParams.view p)) @
     field ''parent'' (map_option JNum (UpdateCollectionParams.parent p))"

fun call_of :: "operation \<Rightarrow> call_request" where
  "call_of (getRaindrop ident) =
     \<lparr>call_request.name = ''get_bookmark'', arguments = Some [(''id'', JNum ident)]\<rparr>"
| "call_of (searchRaindrops p) =
     \<lparr>call_request.name = ''search_bookmarks'', arguments = map_option bag_of_SearchParams p\<rparr>"
| "call_of (createRaindrop p) =
     \<lparr>call_request.name = ''create_bookmark'', arguments = Some (bag_of_CreateRaindropParams p)\<rparr>"
| "call_of (updateRaindrop ident p) =
     \<lparr>call_request.name = ''update_bookmark'',
      arguments = Some ((''id'', JNum ident) # bag_of_UpdateRaindropParams p)\<rparr>"
| "call_of (deleteRaindrop ident) =
     \<lparr>call_request.name = ''delete_bookmark'', arguments = Some [(''id'', JNum ident)]\<rparr>"
| "call_of getCollections = \<lparr>call_request.name = ''list_collections'', arguments = None\<rparr>"
| "call_of (getCollection ident) =
     \<lparr>call_request.name = ''get_collection'', arguments = Some [(''id'', JNum ident)]\<rparr>"
| "call_of (createCollection p) =
     \<lparr>call_request.name = ''create_collection'', arguments = Some (bag_of_CreateCollectionParams p)\<rparr>"
| "call_of (updateCollection ident p) =
     \<lparr>call_request.name = ''update_collection'',
      arguments = Some ((''id'', JNum ident) # bag_of_UpdateCollectionParams p)\<rparr>"
| "call_of (deleteCollection ident) =
     \<lparr>call_request.name = ''delete_collection'', arguments = Some [(''id'', JNum ident)]\<rparr>"
| "call_of getTags = \<lparr>call_request.name = ''list_tags'', arguments = None\<rparr>"
| "call_of (deleteTag tagName) =
     \<lparr>call_request.name = ''delete_tag'', arguments = Some [(''tagName'', JStr tagName)]\<rparr>"
| "call_of (renameTag oldName newName) =
     \<lparr>call_request.name = ''rename_tag'',
      arguments = Some [(''oldName'', JStr oldName), (''newName'', JStr newName)]\<rparr>"
| "call_of getUser = \<lparr>call_request.name = ''get_user_info'', arguments = None\<rparr>"

subsection \<open>Shutdown\<close>

text \<open>
  The shutdown flag and the pending exit timers, each by the time (in milliseconds) at
  which it is due. A termination signal at time \<open>now\<close> sets the flag and starts a timer of
  5000 ms whose callback ends the process with exit code 0.
\<close>

record server =
  isShuttingDown :: bool
  exitTimers :: "nat list"

definition running :: server where
  "running = \<lparr>isShuttingDown = False, exitTimers = []\<rparr>"

definition shutdown :: "nat \<Rightarrow> server \<Rightarrow> server" where
  "shutdown now s = s\<lparr>isShuttingDown := True, exitTimers := exitTimers s @ [now + 5000]\<rparr>"

definition exit_code :: "nat \<Rightarrow> server \<Rightarrow> int option" where
  "exit_code now s = (if list_ex (\<lambda>due. due \<le> now) (exitTimers s) then Some 0 else None)"

section \<open>The retry policy\<close>

lemma isRetryableError_failure:
  "isRetryableError (failure cfg r m) =
     (case r of None \<Rightarrow> True | Some x \<Rightarrow> status x = 429 \<or> (500 \<le> status x \<and> status x \<le> 599))"
  by (auto simp: isRetryableError_def failure_def split: option.splits)

lemma formatError_failure_config:
  "formatError (failure cfg' r m) = formatError (failure cfg r m)"
  by (cases r) (simp_all add: formatError_def failure_def)

lemma config_failure: "config (failure cfg r m) = Some cfg"
  by (simp add: failure_def)

lemma request_Responded:
  "net k = Responded r \<Longrightarrow> request net k cfg = (Inr r, [Sent cfg])"
  by (simp add: request.simps)

lemma request_retry:
  assumes "net k = AttemptFailed r m" and "isRetryableError (failure cfg r m)"
    and "current_count cfg < MAX_RETRIES"
  shows "request net k cfg =
     (case request net (Suc k) (cfg\<lparr>retryCount := Some (current_count cfg + 1)\<rparr>) of
        (res, evs) \<Rightarrow> (res, Sent cfg # Delayed (RETRY_DELAY_MS * 2 ^ current_count cfg) # evs))"
proof -
  have "onRejected (failure cfg r m) =
      Retry (RETRY_DELAY_MS * 2 ^ current_count cfg) (cfg\<lparr>retryCount := Some (current_count cfg + 1)\<rparr>)"
    using assms(2,3) by (simp add: onRejected_def Let_def config_failure)
  with assms(1) show ?thesis
    by (subst request.simps) simp
qed

lemma request_throw:
  assumes "net k = AttemptFailed r m"
    and "\<not> (current_count cfg < MAX_RETRIES \<and> isRetryableError (failure cfg r m))"
  shows "request net k cfg = (Inl (formatError (failure cfg r m)), [Sent cfg])"
proof -
  have "onRejected (failure cfg r m) = Throw (formatError (failure cfg r m))"
    using assms(2) by (auto simp: onRejected_def Let_def config_failure)
  with assms(1) show ?thesis
    by (subst request.simps) simp
qed

lemma request_NotDispatched:
  "net k = NotDispatched m \<Longrightarrow> request net k cfg = (Inl (formatError (undispatched m)), [])"
  by (subst request.simps) (simp add: onRejected_def undispatched_def)

lemma prescribed_retries_Suc:
  "prescribed_retries cfg c (Suc n) =
     Delayed (RETRY_DELAY_MS * 2 ^ c) # Sent (cfg\<lparr>retryCount := Some (Suc c)\<rparr>) #
     prescribed_retries cfg (Suc c) n"
  by (simp add: prescribed_retries_def map_upt_Suc RETRY_DELAY_MS_def del: upt_Suc)

lemma request_recovers:
  assumes "\<And>i. i < n \<Longrightarrow> net (k + i) = AttemptFailed (r i) (m i)"
    and "\<And>i. i < n \<Longrightarrow> isRetryableError (failure cfg (r i) (m i))"
    and "net (k + n) = Responded resp"
    and "current_count cfg = c" and "c + n \<le> MAX_RETRIES"
  shows "request net k cfg =
     (Inr resp, Sent cfg # prescribed_retries cfg c n)"
  using assms
proof (induction n arbitrary: k cfg c r m)
  case 0
  then show ?case by (simp add: request_Responded prescribed_retries_def)
next
  case (Suc n)
  let ?cfg' = "cfg\<lparr>retryCount := Some (current_count cfg + 1)\<rparr>"
  have first: "net k = AttemptFailed (r 0) (m 0)" "isRetryableError (failure cfg (r 0) (m 0))"
    using Suc.prems(1) [of 0] Suc.prems(2) [of 0] by simp_all
  have lt: "current_count cfg < MAX_RETRIES"
    using Suc.prems(4,5) by simp
  have rest: "request net (Suc k) ?cfg' = (Inr resp, Sent ?cfg' # prescribed_retries ?cfg' (Suc c) n)"
  proof (rule Suc.IH [where r = "\<lambda>i. r (Suc i)" and m = "\<lambda>i. m (Suc i)"])
    show "net (Suc k + i) = AttemptFailed (r (Suc i)) (m (Suc i))" if "i < n" for i
      using Suc.prems(1) [of "Suc i"] that by simp
    show "isRetryableError (failure ?cfg' (r (Suc i)) (m (Suc i)))" if "i < n" for i
      using Suc.prems(2) [of "Suc i"] that by (simp add: isRetryableError_failure)
    show "net (Suc k + n) = Responded resp"
      using Suc.prems(3) by simp
    show "current_count ?cfg' = Suc c"
      using Suc.prems(4) by (simp add: current_count_def)
    show "Suc c + n \<le> MAX_RETRIES"
      using Suc.prems(5) by simp
  qed
  have same: "prescribed_retries ?cfg' (Suc c) n = prescribed_retries cfg (Suc c) n"
    by (simp add: prescribed_retries_def)
  show ?case
    using request_retry [of net k "r 0" "m 0" cfg, OF first lt] rest same Suc.prems(4)
    by (simp add: prescribed_retries_Suc)
qed

lemma request_exhausts:
  assumes "\<And>i. i \<le> n \<Longrightarrow> net (k + i) = AttemptFailed (r i) (m i)"
    and "\<And>i. i \<le> n \<Longrightarrow> isRetryableError (failure cfg (r i) (m i))"
    and "current_count cfg = c" and "c + n = MAX_RETRIES"
  shows "request net k cfg =
     (Inl (formatError (failure cfg (r n) (m n))), Sent cfg # prescribed_retries cfg c n)"
  using assms
proof (induction n arbitrary: k cfg c r m)
  case 0
  have "net k = AttemptFailed (r 0) (m 0)"
    using "0.prems"(1) [of 0] by simp
  moreover have "\<not> current_count cfg < MAX_RETRIES"
    using "0.prems"(3,4) by simp
  ultimately show ?case
    by (simp add: request_throw prescribed_retries_def)
next
  case (Suc n)
  let ?cfg' = "cfg\<lparr>retryCount := Some (current_count cfg + 1)\<rparr>"
  have first: "net k = AttemptFailed (r 0) (m 0)" "isRetryableError (failure cfg (r 0) (m 0))"
    using Suc.prems(1) [of 0] Suc.prems(2) [of 0] by simp_all
  have lt: "current_count cfg < MAX_RETRIES"
    using Suc.prems(3,4) by simp
  have rest: "request net (Suc k) ?cfg' =
      (Inl (formatError (failure ?cfg' (r (Suc n)) (m (Suc n)))), Sent ?cfg' # prescribed_retries ?cfg' (Suc c) n)"
  proof (rule Suc.IH [where r = "\<lambda>i. r (Suc i)" and m = "\<lambda>i. m (Suc i)"])
    show "net (Suc k + i) = AttemptFailed (r (Suc i)) (m (Suc i))" if "i \<le> n" for i
      using Suc.prems(1) [of "Suc i"] that by simp
    show "isRetryableError (failure ?cfg' (r (Suc i)) (m (Suc i)))" if "i \<le> n" for i
      using Suc.prems(2) [of "Suc i"] that by (simp add: isRetryableError_failure)
    show "current_count ?cfg' = Suc c"
      using Suc.prems(3) by (simp add: current_count_def)
    show "Suc c + n = MAX_RETRIES"
      using Suc.prems(4) by simp
  qed
  have same: "prescribed_retries ?cfg' (Suc c) n = prescribed_retries cfg (Suc c) n"
    by (simp add: prescribed_retries_def)
  show ?case
    using request_retry [of net k "r 0" "m 0" cfg, OF first lt] rest same Suc.prems(3)
      formatError_failure_config [of ?cfg' "r (Suc n)" "m (Suc n)" cfg]
    by (simp add: prescribed_retries_Suc)
qed

lemma request_attempts_bounded:
  "length (requests_sent (snd (request net k cfg))) \<le> Suc (MAX_RETRIES - current_count cfg)"
proof (induction net k cfg rule: request.induct)
  case (1 net k cfg)
  show ?case
  proof (cases "net k")
    case (Responded r)
    then show ?thesis by (simp add: request_Responded)
  next
    case (NotDispatched m)
    then show ?thesis by (simp add: request_NotDispatched)
  next
    case (AttemptFailed r m)
    show ?thesis
    proof (cases "current_count cfg < MAX_RETRIES \<and> isRetryableError (failure cfg r m)")
      case False
      then show ?thesis using AttemptFailed by (simp add: request_throw)
    next
      case True
      let ?cfg' = "cfg\<lparr>retryCount := Some (current_count cfg + 1)\<rparr>"
      have dec: "onRejected (failure cfg r m) =
          Retry (RETRY_DELAY_MS * 2 ^ current_count cfg) ?cfg'"
        using True by (simp add: onRejected_def Let_def config_failure)
      have IH: "length (requests_sent (snd (request net (Suc k) ?cfg'))) \<le>
          Suc (MAX_RETRIES - current_count ?cfg')"
        using "1.IH"(1) [OF AttemptFailed dec] .
      have cnt: "current_count ?cfg' = Suc (current_count cfg)"
        by (simp add: current_count_def)
      show ?thesis
        using request_retry [of net k r m cfg, OF AttemptFailed] True IH cnt
        by (auto simp: split_beta)
    qed
  qed
qed

lemma delays_append: "delays (xs @ ys) = delays xs @ delays ys"
  by (induction xs rule: delays.induct) simp_all

lemma requests_sent_append: "requests_sent (xs @ ys) = requests_sent xs @ requests_sent ys"
  by (induction xs rule: requests_sent.induct) simp_all

lemma delays_prescribed_retries: "delays (prescribed_retries cfg c n) = map (\<lambda>i. 1000 * 2 ^ (c + i)) [0..<n]"
  by (induction n) (simp_all add: prescribed_retries_def delays_append)

lemma requests_sent_prescribed_retries:
  "requests_sent (prescribed_retries cfg c n) = map (\<lambda>i. cfg\<lparr>retryCount := Some (Suc (c + i))\<rparr>) [0..<n]"
  by (induction n) (simp_all add: prescribed_retries_def requests_sent_append)

lemma retryCount_operation_request:
  "retryCount (operation_request (RaindropClient c) op) = None"
  by (cases op)
    (simp_all add: RaindropClient_def axios_get_def axios_post_def axios_put_def axios_delete_def
      Let_def)

lemma current_count_operation_request:
  "current_count (operation_request (RaindropClient c) op) = 0"
  by (simp add: current_count_def retryCount_operation_request)

text \<open>
  Claim C1. For every operation of the client built by the constructor: if the first \<open>N\<close>
  HTTP attempts (\<open>N \<le> 3\<close>) fail with a retryable classification and attempt \<open>N\<close> is
  answered, the operation returns what it reads from that response; the events are the
  first request and then \<open>N\<close> retries, the \<open>n\<close>-th of them (\<open>n = 0, 1, 2\<close>) preceded by a
  delay of \<open>1000 * 2 ^ n\<close> ms; hence \<open>N + 1\<close> requests are sent in all, and each of them has
  the method, path, body, headers, query, base URL and timeout of the original request
  (only the stored counter differs).
\<close>

theorem C1_retry_then_success:
  assumes "N \<le> 3"
    and "\<And>i. i < N \<Longrightarrow> net i = AttemptFailed (r i) (m i)"
    and "\<And>i. i < N \<Longrightarrow> isRetryableError (failure cfg (r i) (m i))"
    and "net N = Responded resp"
    and "cfg = operation_request (RaindropClient c) op"
  shows "fst (perform net (RaindropClient c) op) = operation_result op resp \<and>
     snd (perform net (RaindropClient c) op) = Sent cfg # prescribed_retries cfg 0 N \<and>
     delays (snd (perform net (RaindropClient c) op)) = map (\<lambda>n. 1000 * 2 ^ n) [0..<N] \<and>
     length (requests_sent (snd (perform net (RaindropClient c) op))) = Suc N \<and>
     (\<forall>q \<in> set (requests_sent (snd (perform net (RaindropClient c) op))).
        method' q = method' cfg \<and> url q = url cfg \<and> body q = body cfg \<and>
        headers q = headers cfg \<and> params q = params cfg \<and> baseURL q = baseURL cfg \<and>
        timeout q = timeout cfg)"
proof -
  have "request net 0 cfg = (Inr resp, Sent cfg # prescribed_retries cfg 0 N)"
  proof (rule request_recovers [where r = r and m = m])
    show "net (0 + i) = AttemptFailed (r i) (m i)" if "i < N" for i
      using assms(2) that by simp
    show "isRetryableError (failure cfg (r i) (m i))" if "i < N" for i
      using assms(3) that by simp
    show "net (0 + N) = Responded resp"
      using assms(4) by simp
    show "current_count cfg = 0"
      using assms(5) by (simp add: current_count_operation_request)
    show "0 + N \<le> MAX_RETRIES"
      using assms(1) by (simp add: MAX_RETRIES_def)
  qed
  then have run: "perform net (RaindropClient c) op = (operation_result op resp, Sent cfg # prescribed_retries cfg 0 N)"
    using assms(5) by (simp add: perform_def)
  show ?thesis
    unfolding run
    by (simp add: delays_prescribed_retries requests_sent_prescribed_retries)
qed

text \<open>
  Witness for C1: two 503 responses and then the bookmark; the operation returns the
  bookmark after delays of 1000 and 2000 ms, having sent three requests.
\<close>

theorem C1_retry_then_success_witness:
  "fst (perform
          (\<lambda>k. if k < 2 then AttemptFailed (Some \<lparr>status = 503, data = JNull\<rparr>) ''Request failed with status code 503''
               else Responded \<lparr>status = 200, data = JObj [(''item'', JObj [(''_id'', JNum 7)])]\<rparr>)
          (RaindropClient \<lparr>apiToken = ''token'', baseUrl = None\<rparr>) (getRaindrop 7)) =
     Inr (Some (JObj [(''_id'', JNum 7)])) \<and>
   delays (snd (perform
          (\<lambda>k. if k < 2 then AttemptFailed (Some \<lparr>status = 503, data = JNull\<rparr>) ''Request failed with status code 503''
               else Responded \<lparr>status = 200, data = JObj [(''item'', JObj [(''_id'', JNum 7)])]\<rparr>)
          (RaindropClient \<lparr>apiToken = ''token'', baseUrl = None\<rparr>) (getRaindrop 7))) = [1000, 2000] \<and>
   length (requests_sent (snd (perform
          (\<lambda>k. if k < 2 then AttemptFailed (Some \<lparr>status = 503, data = JNull\<rparr>) ''Request failed with status code 503''
               else Responded \<lparr>status = 200, data = JObj [(''item'', JObj [(''_id'', JNum 7)])]\<rparr>)
          (RaindropClient \<lparr>apiToken = ''token'', baseUrl = None\<rparr>) (getRaindrop 7)))) = 3"
proof -
  let ?net = "\<lambda>k::nat. if k < 2 then AttemptFailed (Some \<lparr>status = 503, data = JNull\<rparr>) ''Request failed with status code 503''
               else Responded \<lparr>status = 200, data = JObj [(''item'', JObj [(''_id'', JNum 7)])]\<rparr>"
  let ?c = "\<lparr>apiToken = ''token'', baseUrl = None\<rparr>"
  let ?cfg = "operation_request (RaindropClient ?c) (getRaindrop 7)"
  have n: "(2::nat) \<le> 3" by simp
  have f: "?net i = AttemptFailed (Some \<lparr>status = 503, data = JNull\<rparr>) ''Request failed with status code 503''"
    if "i < 2" for i
    using that by simp
  have c: "isRetryableError (failure ?cfg (Some \<lparr>status = 503, data = JNull\<rparr>) ''Request failed with status code 503'')"
    by (simp add: isRetryableError_def failure_def)
  have s: "?net 2 = Responded \<lparr>status = 200, data = JObj [(''item'', JObj [(''_id'', JNum 7)])]\<rparr>"
    by simp
  note w = C1_retry_then_success [of 2 ?net "\<lambda>i. Some \<lparr>status = 503, data = JNull\<rparr>"
        "\<lambda>i. ''Request failed with status code 503''" ?cfg
        "\<lparr>status = 200, data = JObj [(''item'', JObj [(''_id'', JNum 7)])]\<rparr>" ?c "getRaindrop 7",
        OF n f c s refl]
  show ?thesis
    using w [THEN conjunct1] w [THEN conjunct2, THEN conjunct2, THEN conjunct1]
      w [THEN conjunct2, THEN conjunct2, THEN conjunct2, THEN conjunct1]
    by (simp add: upt_rec)
qed

text \<open>
  Claim C2. For every operation of the client built by the constructor: if the first four
  HTTP attempts all fail with a retryable classification, the operation sends exactly four
  requests (three retries, after delays of 1000, 2000 and 4000 ms) and then throws the
  error formatted from the fourth failure. Whatever the remote side does, no operation
  sends more than four requests; the loop terminates because the stored counter grows
  with every retry and no retry is made once it has reached \<open>MAX_RETRIES\<close> (the measure of
  the termination proof of \<open>request\<close>).
\<close>

theorem C2_retry_budget_exhausted:
  assumes "\<And>i. i \<le> 3 \<Longrightarrow> net i = AttemptFailed (r i) (m i)"
    and "\<And>i. i \<le> 3 \<Longrightarrow> isRetryableError (failure cfg (r i) (m i))"
    and "cfg = operation_request (RaindropClient c) op"
  shows "perform net (RaindropClient c) op =
       (Inl (Error (formatError (failure cfg (r 3) (m 3)))),
        [Sent cfg, Delayed 1000, Sent (cfg\<lparr>retryCount := Some 1\<rparr>),
         Delayed 2000, Sent (cfg\<lparr>retryCount := Some 2\<rparr>),
         Delayed 4000, Sent (cfg\<lparr>retryCount := Some 3\<rparr>)]) \<and>
     length (requests_sent (snd (perform net (RaindropClient c) op))) = 4 \<and>
     (\<forall>net'. length (requests_sent (snd (perform net' (RaindropClient c) op))) \<le> 4)"
proof -
  have "request net 0 cfg =
      (Inl (formatError (failure cfg (r 3) (m 3))), Sent cfg # prescribed_retries cfg 0 3)"
  proof (rule request_exhausts [where r = r and m = m])
    show "net (0 + i) = AttemptFailed (r i) (m i)" if "i \<le> 3" for i
      using assms(1) that by simp
    show "isRetryableError (failure cfg (r i) (m i))" if "i \<le> 3" for i
      using assms(2) that by simp
    show "current_count cfg = 0"
      using assms(3) by (simp add: current_count_operation_request)
    show "0 + 3 = MAX_RETRIES"
      by (simp add: MAX_RETRIES_def)
  qed
  moreover have "prescribed_retries cfg 0 3 =
      [Delayed 1000, Sent (cfg\<lparr>retryCount := Some 1\<rparr>),
       Delayed 2000, Sent (cfg\<lparr>retryCount := Some 2\<rparr>),
       Delayed 4000, Sent (cfg\<lparr>retryCount := Some 3\<rparr>)]"
    by (simp add: prescribed_retries_def upt_rec)
  ultimately have run: "perform net (RaindropClient c) op =
       (Inl (Error (formatError (failure cfg (r 3) (m 3)))),
        [Sent cfg, Delayed 1000, Sent (cfg\<lparr>retryCount := Some 1\<rparr>),
         Delayed 2000, Sent (cfg\<lparr>retryCount := Some 2\<rparr>),
         Delayed 4000, Sent (cfg\<lparr>retryCount := Some 3\<rparr>)])"
    using assms(3) by (simp add: perform_def)
  have bound: "length (requests_sent (snd (perform net' (RaindropClient c) op))) \<le> 4" for net'
    using request_attempts_bounded [of net' 0 "operation_request (RaindropClient c) op"]
    by (simp add: perform_def current_count_operation_request MAX_RETRIES_def split_beta
          split: sum.splits)
  show ?thesis
    using bound by (simp add: run)
qed

text \<open>Witness for C2: a remote side that always answers 503.\<close>

theorem C2_retry_budget_exhausted_witness:
  "perform (\<lambda>k. AttemptFailed (Some \<lparr>status = 503, data = JNull\<rparr>) ''Request failed with status code 503'')
     (RaindropClient \<lparr>apiToken = ''token'', baseUrl = None\<rparr>) getTags =
   (Inl (Error ''Raindrop.io server error (503): The service is temporarily unavailable. Already retried 3 times.''),
    [Sent (operation_request (RaindropClient \<lparr>apiToken = ''token'', baseUrl = None\<rparr>) getTags),
     Delayed 1000,
     Sent (operation_request (RaindropClient \<lparr>apiToken = ''token'', baseUrl = None\<rparr>) getTags\<lparr>retryCount := Some 1\<rparr>),
     Delayed 2000,
     Sent (operation_request (RaindropClient \<lparr>apiToken = ''token'', baseUrl = None\<rparr>) getTags\<lparr>retryCount := Some 2\<rparr>),
     Delayed 4000,
     Sent (operation_request (RaindropClient \<lparr>apiToken = ''token'', baseUrl = None\<rparr>) getTags\<lparr>retryCount := Some 3\<rparr>)])"
proof -
  let ?net = "\<lambda>k::nat. AttemptFailed (Some \<lparr>status = 503, data = JNull\<rparr>) ''Request failed with status code 503''"
  let ?c = "\<lparr>apiToken = ''token'', baseUrl = None\<rparr>"
  let ?cfg = "operation_request (RaindropClient ?c) getTags"
  have f: "?net i = AttemptFailed (Some \<lparr>status = 503, data = JNull\<rparr>) ''Request failed with status code 503''"
    for i :: nat
    by simp
  have c: "isRetryableError (failure ?cfg (Some \<lparr>status = 503, data = JNull\<rparr>) ''Request failed with status code 503'')"
    by (simp add: isRetryableError_def failure_def)
  have msg: "formatError (failure cfg (Some \<lparr>status = 503, data = JNull\<rparr>) ''Request failed with status code 503'') =
      ''Raindrop.io server error (503): The service is temporarily unavailable. Already retried 3 times.''"
    for cfg
    by (simp add: formatError_def failure_def number_string_def decimal.simps digit_def MAX_RETRIES_def)
  show ?thesis
    using C2_retry_budget_exhausted [of ?net "\<lambda>i. Some \<lparr>status = 503, data = JNull\<rparr>"
        "\<lambda>i. ''Request failed with status code 503''" ?cfg ?c getTags, OF f c refl, THEN conjunct1]
    by (simp add: msg)
qed

text \<open>
  Claim C3. A failure is classified retryable exactly when it has no response or its
  status is 429 or lies in 500..599; the statuses 400, 401, 403 and 404 are not retryable.
  A failed attempt that is not retryable makes \<^verbatim>\<open>client.request\<close> throw the formatted
  error at once, with that one request sent and no delay, whatever the counter stored on
  the configuration; so an operation whose first attempt fails that way sends one request
  and throws.
\<close>

theorem C3_classification_and_terminal_failures:
  "(isRetryableError e \<longleftrightarrow>
      response e = None \<or>
      (\<exists>x. response e = Some x \<and> (status x = 429 \<or> (500 \<le> status x \<and> status x \<le> 599)))) \<and>
   \<not> isRetryableError (failure cfg (Some \<lparr>status = 400, data = d\<rparr>) m) \<and>
   \<not> isRetryableError (failure cfg (Some \<lparr>status = 401, data = d\<rparr>) m) \<and>
   \<not> isRetryableError (failure cfg (Some \<lparr>status = 403, data = d\<rparr>) m) \<and>
   \<not> isRetryableError (failure cfg (Some \<lparr>status = 404, data = d\<rparr>) m) \<and>
   (net k = AttemptFailed r m \<and> \<not> isRetryableError (failure cfg r m) \<longrightarrow>
      request net k cfg = (Inl (formatError (failure cfg r m)), [Sent cfg])) \<and>
   (net 0 = AttemptFailed r m \<and> \<not> isRetryableError (failure (operation_request client op) r m) \<longrightarrow>
      perform net client op =
        (Inl (Error (formatError (failure (operation_request client op) r m))),
         [Sent (operation_request client op)]))"
proof -
  have "isRetryableError e \<longleftrightarrow>
      response e = None \<or>
      (\<exists>x. response e = Some x \<and> (status x = 429 \<or> (500 \<le> status x \<and> status x \<le> 599)))"
    by (cases "response e") (auto simp: isRetryableError_def)
  moreover have "\<not> isRetryableError (failure cfg (Some \<lparr>status = s, data = d\<rparr>) m)"
    if "s \<in> {400, 401, 403, 404}" for s
    using that by (auto simp: isRetryableError_failure)
  moreover have "request net k cfg = (Inl (formatError (failure cfg r m)), [Sent cfg])"
    if "net k = AttemptFailed r m" "\<not> isRetryableError (failure cfg r m)"
    using that by (simp add: request_throw)
  moreover have "perform net client op =
        (Inl (Error (formatError (failure (operation_request client op) r m))),
         [Sent (operation_request client op)])"
    if "net 0 = AttemptFailed r m" "\<not> isRetryableError (failure (operation_request client op) r m)"
    using that by (simp add: perform_def request_throw)
  ultimately show ?thesis by simp
qed

text \<open>Witness for C3: a 404 on the first attempt.\<close>

theorem C3_classification_and_terminal_failures_witness:
  "\<not> isRetryableError \<lparr>config = None, response = Some \<lparr>status = 404, data = JNull\<rparr>, message = ''Request failed with status code 404''\<rparr> \<and>
   perform (\<lambda>k. AttemptFailed (Some \<lparr>status = 404, data = JNull\<rparr>) ''Request failed with status code 404'')
     (RaindropClient \<lparr>apiToken = ''token'', baseUrl = None\<rparr>) (getRaindrop 7) =
   (Inl (Error ''Not found: The requested resource does not exist. It may have been deleted. DO NOT RETRY.''),
    [Sent (operation_request (RaindropClient \<lparr>apiToken = ''token'', baseUrl = None\<rparr>) (getRaindrop 7))])"
  using C3_classification_and_terminal_failures
    [of "\<lparr>config = None, response = Some \<lparr>status = 404, data = JNull\<rparr>, message = ''Request failed with status code 404''\<rparr>"
      "operation_request (RaindropClient \<lparr>apiToken = ''token'', baseUrl = None\<rparr>) (getRaindrop 7)"
      JNull "''Request failed with status code 404''"
      "\<lambda>k. AttemptFailed (Some \<lparr>status = 404, data = JNull\<rparr>) ''Request failed with status code 404''"
      0 "Some \<lparr>status = 404, data = JNull\<rparr>"
      "RaindropClient \<lparr>apiToken = ''token'', baseUrl = None\<rparr>" "getRaindrop 7"]
  by (simp add: formatError_def failure_def)

section \<open>Payloads of the client\<close>

subsection \<open>Conditional assignments\<close>

lemma map_of_set_if_defined:
  "map_of (set_if_defined k v obj) k' =
     (if k' = k then (case v of None \<Rightarrow> map_of obj k | Some x \<Rightarrow> Some x) else map_of obj k')"
  by (simp add: set_if_defined_def update_conv' split: option.splits)

lemma map_of_set_if_truthy:
  "map_of (set_if_truthy k v obj) k' =
     (if k' = k
      then (case v of None \<Rightarrow> map_of obj k | Some x \<Rightarrow> if truthy x then Some x else map_of obj k)
      else map_of obj k')"
  by (simp add: set_if_truthy_def update_conv' split: option.splits)

lemma distinct_set_if_defined:
  "distinct (map fst obj) \<Longrightarrow> distinct (map fst (set_if_defined k v obj))"
  by (simp add: set_if_defined_def distinct_update split: option.splits)

lemma number_string_0: "number_string 0 = ''0''"
  by (simp add: number_string_def decimal.simps digit_def)

lemma number_string_minus_1: "number_string (- 1) = ''-1''"
  by (simp add: number_string_def decimal.simps digit_def)

subsection \<open>Partial updates\<close>

lemma updateRaindrop_data_lookup:
  "map_of (updateRaindrop_data p) k =
     (if k = ''title'' then map_option JStr (UpdateRaindropParams.title p)
      else if k = ''excerpt'' then map_option JStr (UpdateRaindropParams.excerpt p)
      else if k = ''note'' then map_option JStr (UpdateRaindropParams.note' p)
      else if k = ''tags'' then map_option strings (UpdateRaindropParams.tags p)
      else if k = ''important'' then map_option JBool (UpdateRaindropParams.important p)
      else if k = ''collection'' then
        map_option (\<lambda>c. JObj [(''$id'', JNum c)]) (UpdateRaindropParams.collectionId p)
      else None)"
  by (simp add: updateRaindrop_data_def Let_def map_of_set_if_defined update_conv'
        split: option.splits)

lemma updateCollection_data_lookup:
  "map_of (updateCollection_data q) k =
     (if k = ''title'' then map_option JStr (UpdateCollectionParams.title q)
      else if k = ''description'' then map_option JStr (UpdateCollectionParams.description q)
      else if k = ''public'' then map_option JBool (UpdateCollectionParams.public q)
      else if k = ''view'' then map_option JStr (UpdateCollectionParams.view q)
      else if k = ''parent'' then
        map_option (\<lambda>n. JObj [(''$id'', JNum n)]) (UpdateCollectionParams.parent q)
      else None)"
  by (simp add: updateCollection_data_def Let_def map_of_set_if_defined update_conv'
        split: option.splits)

lemma updateRaindrop_data_distinct: "distinct (map fst (updateRaindrop_data p))"
  by (simp add: updateRaindrop_data_def Let_def distinct_set_if_defined distinct_update
        split: option.splits)

lemma updateCollection_data_distinct: "distinct (map fst (updateCollection_data q))"
  by (simp add: updateCollection_data_def Let_def distinct_set_if_defined distinct_update
        split: option.splits)

text \<open>
  Claim C4. For every input to \<^verbatim>\<open>updateRaindrop\<close> and \<^verbatim>\<open>updateCollection\<close>, the body sent is
  an object (with distinct keys) that holds exactly the fields present in the partial
  input: looking up any key \<open>k\<close> gives the value of the input field of that name when the
  field is present, whatever its value, and nothing otherwise. A present \<^verbatim>\<open>collectionId\<close>
  (a present \<^verbatim>\<open>parent\<close>), 0 included, is sent as the nested reference with key \<^verbatim>\<open>$id\<close>.
  The last conjunct is the payload for an explicit empty title, empty tag list, \<^verbatim>\<open>false\<close>
  flag and collection 0: all four are sent.
\<close>

theorem C4_partial_update_payloads:
  "body (operation_request client (updateRaindrop i p)) = Some (JObj (updateRaindrop_data p)) \<and>
   body (operation_request client (updateCollection j q)) = Some (JObj (updateCollection_data q)) \<and>
   distinct (map fst (updateRaindrop_data p)) \<and>
   distinct (map fst (updateCollection_data q)) \<and>
   map_of (updateRaindrop_data p) k =
     (if k = ''title'' then map_option JStr (UpdateRaindropParams.title p)
      else if k = ''excerpt'' then map_option JStr (UpdateRaindropParams.excerpt p)
      else if k = ''note'' then map_option JStr (UpdateRaindropParams.note' p)
      else if k = ''tags'' then map_option strings (UpdateRaindropParams.tags p)
      else if k = ''important'' then map_option JBool (UpdateRaindropParams.important p)
      else if k = ''collection'' then
        map_option (\<lambda>c. JObj [(''$id'', JNum c)]) (UpdateRaindropParams.collectionId p)
      else None) \<and>
   map_of (updateCollection_data q) k =
     (if k = ''title'' then map_option JStr (UpdateCollectionParams.title q)
      else if k = ''description'' then map_option JStr (UpdateCollectionParams.description q)
      else if k = ''public'' then map_option JBool (UpdateCollectionParams.public q)
      else if k = ''view'' then map_option JStr (UpdateCollectionParams.view q)
      else if k = ''parent'' then
        map_option (\<lambda>n. JObj [(''$id'', JNum n)]) (UpdateCollectionParams.parent q)
      else None) \<and>
   updateRaindrop_data
     \<lparr>UpdateRaindropParams.title = Some [], UpdateRaindropParams.excerpt = None,
      UpdateRaindropParams.note' = None, UpdateRaindropParams.tags = Some [],
      UpdateRaindropParams.collectionId = Some 0, UpdateRaindropParams.important = Some False\<rparr> =
     [(''title'', JStr []), (''tags'', JArr []), (''important'', JBool False),
      (''collection'', JObj [(''$id'', JNum 0)])]"
proof -
  have "body (operation_request client (updateRaindrop i p)) = Some (JObj (updateRaindrop_data p))"
    by (simp add: axios_put_def)
  moreover have "body (operation_request client (updateCollection j q)) =
      Some (JObj (updateCollection_data q))"
    by (simp add: axios_put_def)
  moreover have "updateRaindrop_data
     \<lparr>UpdateRaindropParams.title = Some [], UpdateRaindropParams.excerpt = None,
      UpdateRaindropParams.note' = None, UpdateRaindropParams.tags = Some [],
      UpdateRaindropParams.collectionId = Some 0, UpdateRaindropParams.important = Some False\<rparr> =
     [(''title'', JStr []), (''tags'', JArr []), (''important'', JBool False),
      (''collection'', JObj [(''$id'', JNum 0)])]"
    by (simp add: updateRaindrop_data_def set_if_defined_def strings_def)
  ultimately show ?thesis
    using updateRaindrop_data_lookup [of p k] updateCollection_data_lookup [of q k]
      updateRaindrop_data_distinct [of p] updateCollection_data_distinct [of q]
    by simp
qed

subsection \<open>Creation\<close>

lemma createRaindrop_data_lookup:
  "map_of (createRaindrop_data p) k =
     (if k = ''link'' then Some (JStr (link p))
      else if k = ''pleaseParse'' then Some (JObj [])
      else if k = ''title'' then
        (case CreateRaindropParams.title p of None \<Rightarrow> None
         | Some s \<Rightarrow> if s = [] then None else Some (JStr s))
      else if k = ''excerpt'' then
        (case CreateRaindropParams.excerpt p of None \<Rightarrow> None
         | Some s \<Rightarrow> if s = [] then None else Some (JStr s))
      else if k = ''note'' then
        (case CreateRaindropParams.note' p of None \<Rightarrow> None
         | Some s \<Rightarrow> if s = [] then None else Some (JStr s))
      else if k = ''tags'' then map_option strings (CreateRaindropParams.tags p)
      else if k = ''important'' then map_option JBool (CreateRaindropParams.important p)
      else if k = ''collection'' then
        (case CreateRaindropParams.collectionId p of None \<Rightarrow> None
         | Some v \<Rightarrow> if v = 0 then None else Some (JObj [(''$id'', JNum v)]))
      else None)"
  by (simp add: createRaindrop_data_def Let_def map_of_set_if_defined map_of_set_if_truthy
        update_conv' or_zero_def strings_def split: option.splits)

text \<open>
  Claim C5. For every input to \<^verbatim>\<open>createRaindrop\<close>, the body sent always holds the
  auto-parse signal \<^verbatim>\<open>pleaseParse\<close> (an empty object); it holds no collection reference
  when \<^verbatim>\<open>collectionId\<close> is absent or 0, and the reference with \<^verbatim>\<open>$id\<close> \<open>v\<close> for every other
  integer \<open>v\<close>, in particular for 5 and for -1.
\<close>

theorem C5_create_bookmark_payload:
  "body (operation_request client (createRaindrop p)) = Some (JObj (createRaindrop_data p)) \<and>
   map_of (createRaindrop_data p) ''pleaseParse'' = Some (JObj []) \<and>
   map_of (createRaindrop_data p) ''collection'' =
     (case CreateRaindropParams.collectionId p of
        None \<Rightarrow> None
      | Some v \<Rightarrow> if v = 0 then None else Some (JObj [(''$id'', JNum v)])) \<and>
   map_of (createRaindrop_data (p\<lparr>CreateRaindropParams.collectionId := Some 5\<rparr>)) ''collection'' =
     Some (JObj [(''$id'', JNum 5)]) \<and>
   map_of (createRaindrop_data (p\<lparr>CreateRaindropParams.collectionId := Some (- 1)\<rparr>)) ''collection'' =
     Some (JObj [(''$id'', JNum (- 1))]) \<and>
   map_of (createRaindrop_data (p\<lparr>CreateRaindropParams.collectionId := Some 0\<rparr>)) ''collection'' = None \<and>
   map_of (createRaindrop_data (p\<lparr>CreateRaindropParams.collectionId := None\<rparr>)) ''collection'' = None"
  by (simp add: createRaindrop_data_lookup axios_post_def)

lemma createCollection_data_lookup:
  "map_of (createCollection_data p) k =
     (if k = ''title'' then Some (JStr (CreateCollectionParams.title p))
      else if k = ''description'' then
        (case CreateCollectionParams.description p of None \<Rightarrow> None
         | Some s \<Rightarrow> if s = [] then None else Some (JStr s))
      else if k = ''public'' then map_option JBool (CreateCollectionParams.public p)
      else if k = ''view'' then
        (case CreateCollectionParams.view p of None \<Rightarrow> None
         | Some s \<Rightarrow> if s = [] then None else Some (JStr s))
      else if k = ''parent'' then
        (case CreateCollectionParams.parent p of None \<Rightarrow> None
         | Some n \<Rightarrow> if n = 0 then None else Some (JObj [(''$id'', JNum n)]))
      else None)"
  by (simp add: createCollection_data_def Let_def map_of_set_if_defined map_of_set_if_truthy
        update_conv' split: option.splits)

text \<open>
  Claim C10. \<^verbatim>\<open>createCollection\<close> drops the optional fields given with a falsy value: an
  explicit empty description, an explicit empty view and a parent 0 are left out of the
  body, while \<^verbatim>\<open>public: false\<close> is kept; \<^verbatim>\<open>updateCollection\<close> sends each of these four. The
  last conjunct gives the body of \<^verbatim>\<open>createCollection\<close> for every input and key.
\<close>

theorem C10_create_collection_drops_falsy:
  "body (operation_request client (createCollection p)) = Some (JObj (createCollection_data p)) \<and>
   map_of (createCollection_data (p\<lparr>CreateCollectionParams.description := Some []\<rparr>)) ''description'' = None \<and>
   map_of (createCollection_data (p\<lparr>CreateCollectionParams.view := Some []\<rparr>)) ''view'' = None \<and>
   map_of (createCollection_data (p\<lparr>CreateCollectionParams.parent := Some 0\<rparr>)) ''parent'' = None \<and>
   map_of (createCollection_data (p\<lparr>CreateCollectionParams.public := Some False\<rparr>)) ''public'' =
     Some (JBool False) \<and>
   map_of (updateCollection_data (q\<lparr>UpdateCollectionParams.description := Some []\<rparr>)) ''description'' =
     Some (JStr []) \<and>
   map_of (updateCollection_data (q\<lparr>UpdateCollectionParams.view := Some []\<rparr>)) ''view'' = Some (JStr []) \<and>
   map_of (updateCollection_data (q\<lparr>UpdateCollectionParams.parent := Some 0\<rparr>)) ''parent'' =
     Some (JObj [(''$id'', JNum 0)]) \<and>
   map_of (updateCollection_data (q\<lparr>UpdateCollectionParams.public := Some False\<rparr>)) ''public'' =
     Some (JBool False) \<and>
   map_of (createCollection_data p) k =
     (if k = ''title'' then Some (JStr (CreateCollectionParams.title p))
      else if k = ''description'' then
        (case CreateCollectionParams.description p of None \<Rightarrow> None
         | Some s \<Rightarrow> if s = [] then None else Some (JStr s))
      else if k = ''public'' then map_option JBool (CreateCollectionParams.public p)
      else if k = ''view'' then
        (case CreateCollectionParams.view p of None \<Rightarrow> None
         | Some s \<Rightarrow> if s = [] then None else Some (JStr s))
      else if k = ''parent'' then
        (case CreateCollectionParams.parent p of None \<Rightarrow> None
         | Some n \<Rightarrow> if n = 0 then None else Some (JObj [(''$id'', JNum n)]))
      else None)"
  using createCollection_data_lookup [of p k]
  by (simp add: createCollection_data_lookup updateCollection_data_lookup axios_post_def)

subsection \<open>Search\<close>

lemma searchRaindrops_queryParams_lookup:
  "map_of (searchRaindrops_queryParams p) k =
     (if k = ''search'' then
        (case search p of None \<Rightarrow> None | Some s \<Rightarrow> if s = [] then None else Some (JStr s))
      else if k = ''sort'' then
        (case sort p of None \<Rightarrow> None | Some s \<Rightarrow> if s = [] then None else Some (JStr s))
      else if k = ''perpage'' then
        (case perpage p of None \<Rightarrow> None | Some n \<Rightarrow> if n = 0 then None else Some (JNum n))
      else if k = ''page'' then
        (case page p of None \<Rightarrow> None | Some n \<Rightarrow> if n = 0 then None else Some (JNum n))
      else if k = ''tag'' then
        (case tag p of None \<Rightarrow> None | Some ts \<Rightarrow> if ts = [] then None else Some (strings ts))
      else None)"
  by (simp add: searchRaindrops_queryParams_def Let_def map_of_set_if_truthy update_conv'
        split: option.splits)

text \<open>
  Claim C6, as the code has it. The search request is a GET whose path ends in the
  collection scope: 0 when none is given, -1 for the scope -1. A filter field becomes a
  query parameter exactly when it is given and truthy: a non-empty query or sort string, a
  non-zero page or page size, a non-empty tag list. A field given as the empty string, as
  0 or as the empty list is left out, as an omitted field is.
\<close>

theorem C6_search_request:
  "method' (operation_request client (searchRaindrops (Some p))) = GET \<and>
   url (operation_request client (searchRaindrops (Some p))) =
     ''/raindrops/'' @ number_string (case SearchParams.collectionId p of None \<Rightarrow> 0 | Some c \<Rightarrow> c) \<and>
   url (operation_request client (searchRaindrops (Some (p\<lparr>SearchParams.collectionId := None\<rparr>)))) =
     ''/raindrops/0'' \<and>
   url (operation_request client (searchRaindrops None)) = ''/raindrops/0'' \<and>
   url (operation_request client (searchRaindrops (Some (p\<lparr>SearchParams.collectionId := Some (- 1)\<rparr>)))) =
     ''/raindrops/-1'' \<and>
   params (operation_request client (searchRaindrops (Some p))) = searchRaindrops_queryParams p \<and>
   map_of (searchRaindrops_queryParams p) k =
     (if k = ''search'' then
        (case search p of None \<Rightarrow> None | Some s \<Rightarrow> if s = [] then None else Some (JStr s))
      else if k = ''sort'' then
        (case sort p of None \<Rightarrow> None | Some s \<Rightarrow> if s = [] then None else Some (JStr s))
      else if k = ''perpage'' then
        (case perpage p of None \<Rightarrow> None | Some n \<Rightarrow> if n = 0 then None else Some (JNum n))
      else if k = ''page'' then
        (case page p of None \<Rightarrow> None | Some n \<Rightarrow> if n = 0 then None else Some (JNum n))
      else if k = ''tag'' then
        (case tag p of None \<Rightarrow> None | Some ts \<Rightarrow> if ts = [] then None else Some (strings ts))
      else None)"
  using searchRaindrops_queryParams_lookup [of p k]
  by (simp add: axios_get_def Let_def or_zero_def no_SearchParams_def number_string_0
        number_string_minus_1 split: option.splits)

text \<open>
  Claim C6 as stated fails: a search with an explicit page 0 and an explicit empty query
  sends the very request of a search that omits both, with no query parameter at all.
\<close>

theorem C6_explicit_zero_is_omitted:
  "operation_request (RaindropClient \<lparr>apiToken = ''token'', baseUrl = None\<rparr>)
     (searchRaindrops (Some \<lparr>SearchParams.collectionId = None, search = Some [], sort = None,
        perpage = None, page = Some 0, tag = None\<rparr>)) =
   operation_request (RaindropClient \<lparr>apiToken = ''token'', baseUrl = None\<rparr>)
     (searchRaindrops (Some \<lparr>SearchParams.collectionId = None, search = None, sort = None,
        perpage = None, page = None, tag = None\<rparr>)) \<and>
   params (operation_request (RaindropClient \<lparr>apiToken = ''token'', baseUrl = None\<rparr>)
     (searchRaindrops (Some \<lparr>SearchParams.collectionId = None, search = Some [], sort = None,
        perpage = None, page = Some 0, tag = None\<rparr>))) = []"
  by (simp add: searchRaindrops_queryParams_def set_if_truthy_def Let_def axios_get_def)

section \<open>Responses of the dispatcher\<close>

subsection \<open>Calls of the declared shape run the operations of the client\<close>

lemma lookup_SearchParams:
  "map_of (bag_of_SearchParams p) k =
     (if k = ''collectionId'' then map_option JNum (SearchParams.collectionId p)
      else if k = ''search'' then map_option JStr (search p)
      else if k = ''sort'' then map_option JStr (sort p)
      else if k = ''perpage'' then map_option JNum (perpage p)
      else if k = ''page'' then map_option JNum (page p)
      else if k = ''tag'' then map_option strings (tag p)
      else None)"
  by (cases "SearchParams.collectionId p"; cases "search p"; cases "sort p"; cases "perpage p";
      cases "page p"; cases "tag p")
    (simp_all add: bag_of_SearchParams_def field_def)

lemma lookup_CreateRaindropParams:
  "map_of (bag_of_CreateRaindropParams p) k =
     (if k = ''link'' then Some (JStr (link p))
      else if k = ''title'' then map_option JStr (CreateRaindropParams.title p)
      else if k = ''excerpt'' then map_option JStr (CreateRaindropParams.excerpt p)
      else if k = ''note'' then map_option JStr (CreateRaindropParams.note' p)
      else if k = ''tags'' then map_option strings (CreateRaindropParams.tags p)
      else if k = ''collectionId'' then map_option JNum (CreateRaindropParams.collectionId p)
      else if k = ''important'' then map_option JBool (CreateRaindropParams.important p)
      else None)"
  by (cases "CreateRaindropParams.title p"; cases "CreateRaindropParams.excerpt p";
      cases "CreateRaindropParams.note' p"; cases "CreateRaindropParams.tags p";
      cases "CreateRaindropParams.collectionId p"; cases "CreateRaindropParams.important p")
    (simp_all add: bag_of_CreateRaindropParams_def field_def)

lemma lookup_UpdateRaindropParams:
  "map_of (bag_of_UpdateRaindropParams p) k =
     (if k = ''title'' then map_option JStr (UpdateRaindropParams.title p)
      else if k = ''excerpt'' then map_option JStr (UpdateRaindropParams.excerpt p)
      else if k = ''note'' then map_option JStr (UpdateRaindropParams.note' p)
      else if k = ''tags'' then map_option strings (UpdateRaindropParams.tags p)
      else if k = ''collectionId'' then map_option JNum (UpdateRaindropParams.collectionId p)
      else if k = ''important'' then map_option JBool (UpdateRaindropParams.important p)
      else None)"
  by (cases "UpdateRaindropParams.title p"; cases "UpdateRaindropParams.excerpt p";
      cases "UpdateRaindropParams.note' p"; cases "UpdateRaindropParams.tags p";
      cases "UpdateRaindropParams.collectionId p"; cases "UpdateRaindropParams.important p")
    (simp_all add: bag_of_UpdateRaindropParams_def field_def)

lemma lookup_CreateCollectionParams:
  "map_of (bag_of_CreateCollectionParams p) k =
     (if k = ''title'' then Some (JStr (CreateCollectionParams.title p))
      else if k = ''description'' then map_option JStr (CreateCollectionParams.description p)
      else if k = ''public'' then map_option JBool (CreateCollectionParams.public p)
      else if k = ''view'' then map_option JStr (CreateCollectionParams.view p)
      else if k = ''parent'' then map_option JNum (CreateCollectionParams.parent p)
      else None)"
  by (cases "CreateCollectionParams.description p"; cases "CreateCollectionParams.public p";
      cases "CreateCollectionParams.view p"; cases "CreateCollectionParams.parent p")
    (simp_all add: bag_of_CreateCollectionParams_def field_def)

lemma lookup_UpdateCollectionParams:
  "map_of (bag_of_UpdateCollectionParams p) k =
     (if k = ''title'' then map_option JStr (UpdateCollectionParams.title p)
      else if k = ''description'' then map_option JStr (UpdateCollectionParams.description p)
      else if k = ''public'' then map_option JBool (UpdateCollectionParams.public p)
      else if k = ''view'' then map_option JStr (UpdateCollectionParams.view p)
      else if k = ''parent'' then map_option JNum (UpdateCollectionParams.parent p)
      else None)"
  by (cases "UpdateCollectionParams.title p"; cases "UpdateCollectionParams.description p";
      cases "UpdateCollectionParams.public p"; cases "UpdateCollectionParams.view p";
      cases "UpdateCollectionParams.parent p")
    (simp_all add: bag_of_UpdateCollectionParams_def field_def)

lemma perform_await:
  "perform net client op = await net (operation_request client op) (operation_result op)"
  by (simp add: perform_def await_def)

lemma template_or_zero:
  "template (or_else (map_option JNum c) (Some (JNum 0))) = number_string (or_zero c)"
  by (cases c) (simp_all add: template_def or_else_def or_zero_def)

lemma template_number: "template (Some (JNum i)) = number_string i"
  by (simp add: template_def)

lemma template_string: "template (Some (JStr s)) = s"
  by (simp add: template_def)

lemma unchecked_searchRaindrops_typed:
  "unchecked_searchRaindrops pos client (map_option bag_of_SearchParams p) =
     operation_request client (searchRaindrops p)"
proof (cases p)
  case None
  then show ?thesis
    by (simp add: unchecked_searchRaindrops_def no_SearchParams_def searchRaindrops_queryParams_def
          set_if_truthy_def or_else_def or_zero_def template_def Let_def)
next
  case (Some q)
  show ?thesis
    unfolding Some
    by (cases "tag q")
      (simp_all add: unchecked_searchRaindrops_def searchRaindrops_queryParams_def Let_def
        lookup_SearchParams template_or_zero strings_def)
qed

lemma unchecked_createRaindrop_typed:
  "unchecked_createRaindrop client (Some (bag_of_CreateRaindropParams p)) =
     Inr (operation_request client (createRaindrop p))"
  by (cases "CreateRaindropParams.collectionId p")
    (simp_all add: unchecked_createRaindrop_def createRaindrop_data_def Let_def
      lookup_CreateRaindropParams or_else_def or_zero_def set_if_defined_def)

lemma unchecked_updateRaindrop_typed:
  "unchecked_updateRaindrop client (Some (JNum i)) ((''id'', JNum i) # bag_of_UpdateRaindropParams p) =
     operation_request client (updateRaindrop i p)"
  by (cases "UpdateRaindropParams.collectionId p")
    (simp_all add: unchecked_updateRaindrop_def updateRaindrop_data_def Let_def
      lookup_UpdateRaindropParams template_number)

lemma unchecked_createCollection_typed:
  "unchecked_createCollection client (Some (bag_of_CreateCollectionParams p)) =
     Inr (operation_request client (createCollection p))"
  by (cases "CreateCollectionParams.parent p")
    (simp_all add: unchecked_createCollection_def createCollection_data_def Let_def
      lookup_CreateCollectionParams set_if_defined_def)

lemma unchecked_updateCollection_typed:
  "unchecked_updateCollection client (Some (JNum i)) ((''id'', JNum i) # bag_of_UpdateCollectionParams p) =
     operation_request client (updateCollection i p)"
  by (cases "UpdateCollectionParams.parent p")
    (simp_all add: unchecked_updateCollection_def updateCollection_data_def Let_def
      lookup_UpdateCollectionParams template_number)

lemma readers:
  "operation_result (getRaindrop i) = item"
  "operation_result (searchRaindrops sp) = items_and_count"
  "operation_result (createRaindrop cr) = item"
  "operation_result (updateRaindrop i ur) = item"
  "operation_result (deleteRaindrop i) = nothing"
  "operation_result getCollections = items"
  "operation_result (getCollection i) = item"
  "operation_result (createCollection cc) = item"
  "operation_result (updateCollection i uc) = item"
  "operation_result (deleteCollection i) = nothing"
  "operation_result getTags = items"
  "operation_result (deleteTag t) = nothing"
  "operation_result (renameTag old new) = nothing"
  "operation_result getUser = user"
  by (auto simp: item_def items_def user_def nothing_def items_and_count_def fun_eq_iff)

lemma try_switch_call_of:
  "\<exists>render. try_switch eng net client (call_request.name (call_of op)) (arguments (call_of op)) =
     respond render (perform net client op)"
proof (cases op)
  case (searchRaindrops p)
  then show ?thesis
    by (auto simp: try_switch_def perform_await readers unchecked_searchRaindrops_typed
          simp del: operation_request.simps operation_result.simps)
next
  case (createRaindrop p)
  then show ?thesis
    by (auto simp: try_switch_def perform_await readers unchecked_createRaindrop_typed
          simp del: operation_request.simps operation_result.simps)
next
  case (updateRaindrop i p)
  then show ?thesis
    by (auto simp: try_switch_def perform_await readers unchecked_updateRaindrop_typed destructure_def
          simp del: operation_request.simps operation_result.simps)
next
  case (createCollection p)
  then show ?thesis
    by (auto simp: try_switch_def perform_await readers unchecked_createCollection_typed
          simp del: operation_request.simps operation_result.simps)
next
  case (updateCollection i p)
  then show ?thesis
    by (auto simp: try_switch_def perform_await readers unchecked_updateCollection_typed destructure_def
          simp del: operation_request.simps operation_result.simps)
next
  case (deleteTag t)
  then show ?thesis
    by (auto simp: try_switch_def perform_await readers destructure_def unchecked_deleteTag_def
          simp del: operation_result.simps)
next
  case (renameTag old new)
  then show ?thesis
    by (auto simp: try_switch_def perform_await readers destructure_def unchecked_renameTag_def
          set_if_defined_def simp del: operation_result.simps)
qed (auto simp: try_switch_def perform_await readers destructure_def template_number
       simp del: operation_result.simps)

subsection \<open>What the switch can throw\<close>

lemma request_throws_formatted:
  "fst (request net k cfg) = Inl msg \<Longrightarrow> \<exists>err. msg = formatError err"
proof (induction net k cfg rule: request.induct)
  case (1 net k cfg)
  show ?case
  proof (cases "net k")
    case (Responded r)
    then show ?thesis using "1.prems" by (simp add: request_Responded)
  next
    case (NotDispatched m)
    then show ?thesis using "1.prems" by (auto simp: request_NotDispatched)
  next
    case (AttemptFailed r m)
    show ?thesis
    proof (cases "current_count cfg < MAX_RETRIES \<and> isRetryableError (failure cfg r m)")
      case False
      then show ?thesis using AttemptFailed "1.prems" by (auto simp: request_throw)
    next
      case True
      let ?cfg' = "cfg\<lparr>retryCount := Some (current_count cfg + 1)\<rparr>"
      have dec: "onRejected (failure cfg r m) =
          Retry (RETRY_DELAY_MS * 2 ^ current_count cfg) ?cfg'"
        using True by (simp add: onRejected_def Let_def config_failure)
      have "fst (request net (Suc k) ?cfg') = Inl msg"
        using request_retry [of net k r m cfg, OF AttemptFailed] True "1.prems"
        by (simp add: split_beta)
      then show ?thesis
        using "1.IH"(1) [OF AttemptFailed dec] by simp
    qed
  qed
qed

lemma property_throws: "property v k = Inl e \<Longrightarrow> \<exists>m. e = TypeError m"
  by (cases v) auto

lemma reading_throws:
  assumes "reading \<in> {item, items, user, nothing, items_and_count}" and "reading r = Inl e"
  shows "\<exists>m. e = TypeError m"
  using assms
  by (auto simp: item_def items_def user_def nothing_def items_and_count_def
        dest: property_throws split: sum.splits)

lemma await_throws:
  assumes "await net cfg reading = (Inl e, evs)"
    and "reading \<in> {item, items, user, nothing, items_and_count}"
  shows "(\<exists>err. e = Error (formatError err)) \<or> (\<exists>m. e = TypeError m)"
proof (cases "fst (request net 0 cfg)")
  case (Inl msg)
  then obtain err where "msg = formatError err"
    using request_throws_formatted by blast
  moreover have "e = Error msg"
    using assms(1) Inl by (simp add: await_def split_beta)
  ultimately show ?thesis by blast
next
  case (Inr r)
  then have "reading r = Inl e"
    using assms(1) by (simp add: await_def split_beta)
  then show ?thesis
    using reading_throws [OF assms(2)] by blast
qed

lemma respond_throws: "respond render out = (Inl e, evs) \<Longrightarrow> out = (Inl e, evs)"
  by (cases out) (auto simp: respond_def split: sum.splits)

lemma respond_await_throws:
  assumes "respond render (await net cfg reading) = (Inl e, evs)"
    and "reading \<in> {item, items, user, nothing, items_and_count}"
  shows "(\<exists>err. e = Error (formatError err)) \<or> (\<exists>m. e = TypeError m)"
  using await_throws [OF respond_throws [OF assms(1)] assms(2)] .

lemma destructure_throws:
  assumes "destructure args k continue = (Inl e, evs)"
    and "\<And>a. continue a = (Inl e, evs) \<Longrightarrow> (\<exists>err. e = Error (formatError err)) \<or> (\<exists>m. e = TypeError m)"
  shows "(\<exists>err. e = Error (formatError err)) \<or> (\<exists>m. e = TypeError m)"
  using assms by (cases args) (auto simp: destructure_def cannot_destructure_def)

lemma unchecked_createRaindrop_throws:
  "unchecked_createRaindrop client args = Inl e \<Longrightarrow> \<exists>m. e = TypeError m"
  by (cases args) (auto simp: unchecked_createRaindrop_def cannot_read_def Let_def)

lemma unchecked_createCollection_throws:
  "unchecked_createCollection client args = Inl e \<Longrightarrow> \<exists>m. e = TypeError m"
  by (cases args) (auto simp: unchecked_createCollection_def cannot_read_def Let_def)

lemma try_switch_throws:
  assumes "try_switch eng net client n args = (Inl e, evs)"
  shows "(\<exists>err. e = Error (formatError err)) \<or> (\<exists>m. e = TypeError m)"
proof -
  define P where "P \<longleftrightarrow> (\<exists>err. e = Error (formatError err)) \<or> (\<exists>m. e = TypeError m)"
  have R: "P" if "respond render (await net cfg reading) = (Inl e, evs)"
    and "reading \<in> {item, items, user, nothing, items_and_count}" for render cfg reading
    unfolding P_def using that by (rule respond_await_throws)
  have D: "P" if "destructure args k continue = (Inl e, evs)"
    and "\<And>a. continue a = (Inl e, evs) \<Longrightarrow> P" for k continue
    using that unfolding P_def by (rule destructure_throws)
  have T: "P" if "e = TypeError m" for m
    unfolding P_def using that by simp
  consider
      (search) "n = ''search_bookmarks''" | (get) "n = ''get_bookmark''"
    | (create) "n = ''create_bookmark''" | (update) "n = ''update_bookmark''"
    | (delete) "n = ''delete_bookmark''" | (collections) "n = ''list_collections''"
    | (collection) "n = ''get_collection''" | (create_c) "n = ''create_collection''"
    | (update_c) "n = ''update_collection''" | (delete_c) "n = ''delete_collection''"
    | (tags) "n = ''list_tags''" | (rename) "n = ''rename_tag''" | (delete_t) "n = ''delete_tag''"
    | (user) "n = ''get_user_info''" | (unknown) "n \<notin> set (map tool.name tools)"
    by (auto simp: tools_def)
  then have P
  proof cases
    case search
    then show ?thesis using assms by (auto simp: try_switch_def intro: R)
  next
    case get
    then show ?thesis using assms by (auto simp: try_switch_def intro: R elim!: D)
  next
    case create
    then show ?thesis using assms
      by (auto simp: try_switch_def split: sum.splits intro: R T dest: unchecked_createRaindrop_throws)
  next
    case update
    then show ?thesis using assms by (auto simp: try_switch_def intro: R elim!: D)
  next
    case delete
    then show ?thesis using assms by (auto simp: try_switch_def intro: R elim!: D)
  next
    case collections
    then show ?thesis using assms by (auto simp: try_switch_def intro: R)
  next
    case collection
    then show ?thesis using assms by (auto simp: try_switch_def intro: R elim!: D)
  next
    case create_c
    then show ?thesis using assms
      by (auto simp: try_switch_def split: sum.splits intro: R T dest: unchecked_createCollection_throws)
  next
    case update_c
    then show ?thesis using assms by (auto simp: try_switch_def intro: R elim!: D)
  next
    case delete_c
    then show ?thesis using assms by (auto simp: try_switch_def intro: R elim!: D)
  next
    case tags
    then show ?thesis using assms by (auto simp: try_switch_def intro: R)
  next
    case rename
    then show ?thesis using assms by (auto simp: try_switch_def intro: R elim!: D)
  next
    case delete_t
    then show ?thesis using assms by (auto simp: try_switch_def intro: R elim!: D)
  next
    case user
    then show ?thesis using assms by (auto simp: try_switch_def intro: R)
  next
    case unknown
    then show ?thesis using assms by (auto simp: try_switch_def tools_def)
  qed
  then show ?thesis unfolding P_def .
qed

subsection \<open>The tool names\<close>

lemma tool_names:
  "map tool.name tools =
     [''search_bookmarks'', ''get_bookmark'', ''create_bookmark'', ''update_bookmark'',
      ''delete_bookmark'', ''list_collections'', ''get_collection'', ''create_collection'',
      ''update_collection'', ''delete_collection'', ''list_tags'', ''rename_tag'', ''delete_tag'',
      ''get_user_info'']"
  by (simp add: tools_def)

lemma joined_tool_names:
  "join (map tool.name tools) =
     ''search_bookmarks, get_bookmark, create_bookmark, update_bookmark, delete_bookmark, list_collections, get_collection, create_collection, update_collection, delete_collection, list_tags, rename_tag, delete_tag, get_user_info''"
  unfolding tool_names by simp

lemma try_switch_unknown:
  "n \<notin> set (map tool.name tools) \<Longrightarrow>
     try_switch eng net client n args =
       (Inr (error_response
               (''Unknown tool: '' @ n @ ''. Available tools: '' @ join (map tool.name tools) @
                ''. DO NOT RETRY with the same tool name.'')),
        [])"
  by (simp add: try_switch_def tool_names)

subsection \<open>Failed operations\<close>

text \<open>
  Claim C7, as the code has it. Whenever the \<^verbatim>\<open>try\<close> block of the handler throws, for any
  tool name and any argument bag (of the declared shape or not, or missing), the handler
  returns a response with the error flag set and a single text block, whose text is
  \<^verbatim>\<open>Error: \<close> followed by the message of the thrown error; the events are those of the
  \<^verbatim>\<open>try\<close> block. The thrown error is either the \<^verbatim>\<open>Error\<close> of the client, whose message is
  the one \<open>formatError\<close> produced, or a \<^verbatim>\<open>TypeError\<close> of the engine (a null response body,
  a missing argument bag); the dispatcher looks at no status code. In particular, when an
  operation of the client, called through its tool with arguments of the declared types,
  throws, the response is that one. The handler returns a response in every case: no
  failure leaves it as a rejection.
\<close>

theorem C7_failure_is_reported:
  "(try_switch eng net client (call_request.name req) (arguments req) = (Inl e, evs) \<longrightarrow>
      CallTool eng net client False req =
        (\<lparr>content = [\<lparr>type = ''text'', text' = Some (''Error: '' @ error_message e)\<rparr>],
          isError = Some True\<rparr>, evs) \<and>
      ((\<exists>err. e = Error (formatError err)) \<or> (\<exists>m. e = TypeError m))) \<and>
   (perform net client op = (Inl e, evs) \<longrightarrow>
      CallTool eng net client False (call_of op) =
        (\<lparr>content = [\<lparr>type = ''text'', text' = Some (''Error: '' @ error_message e)\<rparr>],
          isError = Some True\<rparr>, evs))"
proof -
  have caught: "CallTool eng net client False r =
        (\<lparr>content = [\<lparr>type = ''text'', text' = Some (''Error: '' @ error_message e)\<rparr>],
          isError = Some True\<rparr>, evs)"
    if "try_switch eng net client (call_request.name r) (arguments r) = (Inl e, evs)" for r
    using that by (simp add: CallTool_def error_response_def)
  have "try_switch eng net client (call_request.name (call_of op)) (arguments (call_of op)) = (Inl e, evs)"
    if "perform net client op = (Inl e, evs)"
    using try_switch_call_of [of eng net client op] that by (auto simp: respond_def)
  then show ?thesis
    using caught try_switch_throws by blast
qed

text \<open>
  Witness for C7: a bookmark the remote side does not have (404), asked for with the
  identifier given as a string; the same tool called with no arguments; and the listing
  of the tags with a token the remote side rejects (401).
\<close>

theorem C7_failure_is_reported_witness:
  "CallTool \<lparr>stringify = (\<lambda>v. []), positive = (\<lambda>s. False)\<rparr>
     (\<lambda>k. AttemptFailed (Some \<lparr>status = 404, data = JNull\<rparr>) ''Request failed with status code 404'')
     (RaindropClient \<lparr>apiToken = ''token'', baseUrl = None\<rparr>) False
     \<lparr>call_request.name = ''get_bookmark'', arguments = Some [(''id'', JStr ''7'')]\<rparr> =
   (\<lparr>content = [\<lparr>type = ''text'',
                  text' = Some ''Error: Not found: The requested resource does not exist. It may have been deleted. DO NOT RETRY.''\<rparr>],
      isError = Some True\<rparr>,
    [Sent (axios_get (RaindropClient \<lparr>apiToken = ''token'', baseUrl = None\<rparr>) ''/raindrop/7'' [])]) \<and>
   CallTool \<lparr>stringify = (\<lambda>v. []), positive = (\<lambda>s. False)\<rparr>
     (\<lambda>k. AttemptFailed (Some \<lparr>status = 404, data = JNull\<rparr>) ''Request failed with status code 404'')
     (RaindropClient \<lparr>apiToken = ''token'', baseUrl = None\<rparr>) False
     \<lparr>call_request.name = ''get_bookmark'', arguments = None\<rparr> =
   (\<lparr>content = [\<lparr>type = ''text'',
                  text' = Some (''Error: '' @ error_message (cannot_destructure ''id''))\<rparr>],
      isError = Some True\<rparr>, []) \<and>
   CallTool \<lparr>stringify = (\<lambda>v. []), positive = (\<lambda>s. False)\<rparr>
     (\<lambda>k. AttemptFailed (Some \<lparr>status = 401, data = JNull\<rparr>) ''Request failed with status code 401'')
     (RaindropClient \<lparr>apiToken = ''token'', baseUrl = None\<rparr>) False
     \<lparr>call_request.name = ''list_tags'', arguments = None\<rparr> =
   (\<lparr>content = [\<lparr>type = ''text'',
                  text' = Some ''Error: Authentication failed: Invalid or expired API token. Please check your RAINDROP_API_TOKEN. DO NOT RETRY - user must fix the token.''\<rparr>],
      isError = Some True\<rparr>,
    [Sent (operation_request (RaindropClient \<lparr>apiToken = ''token'', baseUrl = None\<rparr>) getTags)])"
proof -
  let ?eng = "\<lparr>stringify = (\<lambda>v. []), positive = (\<lambda>s. False)\<rparr>"
  let ?client = "RaindropClient \<lparr>apiToken = ''token'', baseUrl = None\<rparr>"
  let ?net = "\<lambda>k::nat. AttemptFailed (Some \<lparr>status = 404, data = JNull\<rparr>) ''Request failed with status code 404''"
  let ?net' = "\<lambda>k::nat. AttemptFailed (Some \<lparr>status = 401, data = JNull\<rparr>) ''Request failed with status code 401''"
  let ?cfg = "axios_get ?client ''/raindrop/7'' []"
  have "request ?net 0 ?cfg =
      (Inl (formatError (failure ?cfg (Some \<lparr>status = 404, data = JNull\<rparr>) ''Request failed with status code 404'')),
       [Sent ?cfg])"
    by (rule request_throw) (simp_all add: isRetryableError_def failure_def)
  then have a: "try_switch ?eng ?net ?client
      (call_request.name \<lparr>call_request.name = ''get_bookmark'', arguments = Some [(''id'', JStr ''7'')]\<rparr>)
      (arguments \<lparr>call_request.name = ''get_bookmark'', arguments = Some [(''id'', JStr ''7'')]\<rparr>) =
      (Inl (Error ''Not found: The requested resource does not exist. It may have been deleted. DO NOT RETRY.''),
       [Sent ?cfg])"
    by (simp add: try_switch_def destructure_def respond_def await_def template_def
          formatError_def failure_def)
  have b: "try_switch ?eng ?net ?client
      (call_request.name \<lparr>call_request.name = ''get_bookmark'', arguments = None\<rparr>)
      (arguments \<lparr>call_request.name = ''get_bookmark'', arguments = None\<rparr>) =
      (Inl (cannot_destructure ''id''), [])"
    by (simp add: try_switch_def destructure_def)
  have "request ?net' 0 (operation_request ?client getTags) =
      (Inl (formatError (failure (operation_request ?client getTags)
              (Some \<lparr>status = 401, data = JNull\<rparr>) ''Request failed with status code 401'')),
       [Sent (operation_request ?client getTags)])"
    by (rule request_throw) (simp_all add: isRetryableError_def failure_def)
  then have c: "perform ?net' ?client getTags =
      (Inl (Error ''Authentication failed: Invalid or expired API token. Please check your RAINDROP_API_TOKEN. DO NOT RETRY - user must fix the token.''),
       [Sent (operation_request ?client getTags)])"
    by (simp add: perform_def formatError_def failure_def)
  show ?thesis
    using C7_failure_is_reported [THEN conjunct1, rule_format, OF a, THEN conjunct1]
      C7_failure_is_reported [THEN conjunct1, rule_format, OF b, THEN conjunct1]
      C7_failure_is_reported [THEN conjunct2, rule_format, OF c, of ?eng]
    by simp
qed

text \<open>
  Claim C7 as stated fails: for a bookmark the remote side does not have (404), the text
  of the response is not the message of the client but that message after the prefix
  \<^verbatim>\<open>Error: \<close>. And the message of the client is not always a single line: it embeds the
  error text of the remote side as it is, line breaks included.
\<close>

theorem C7_text_is_not_the_message:
  "CallTool \<lparr>stringify = (\<lambda>v. []), positive = (\<lambda>s. False)\<rparr>
     (\<lambda>k. AttemptFailed (Some \<lparr>status = 404, data = JNull\<rparr>) ''Request failed with status code 404'')
     (RaindropClient \<lparr>apiToken = ''token'', baseUrl = None\<rparr>) False
     \<lparr>call_request.name = ''get_bookmark'', arguments = Some [(''id'', JNum 7)]\<rparr> =
   (\<lparr>content = [\<lparr>type = ''text'',
                  text' = Some ''Error: Not found: The requested resource does not exist. It may have been deleted. DO NOT RETRY.''\<rparr>],
      isError = Some True\<rparr>,
    [Sent (operation_request (RaindropClient \<lparr>apiToken = ''token'', baseUrl = None\<rparr>) (getRaindrop 7))]) \<and>
   formatError \<lparr>config = Some (operation_request (RaindropClient \<lparr>apiToken = ''token'', baseUrl = None\<rparr>) (getRaindrop 7)),
                response = Some \<lparr>status = 404, data = JNull\<rparr>,
                message = ''Request failed with status code 404''\<rparr> =
     ''Not found: The requested resource does not exist. It may have been deleted. DO NOT RETRY.'' \<and>
   ''Error: Not found: The requested resource does not exist. It may have been deleted. DO NOT RETRY.'' \<noteq>
     ''Not found: The requested resource does not exist. It may have been deleted. DO NOT RETRY.'' \<and>
   CHR 0x0A \<in> set (formatError
     \<lparr>config = None,
      response = Some \<lparr>status = 400, data = JObj [(''errorMessage'', JStr (''bad'' @ [CHR 0x0A] @ ''link''))]\<rparr>,
      message = ''Request failed with status code 400''\<rparr>)"
proof -
  let ?net = "\<lambda>k::nat. AttemptFailed (Some \<lparr>status = 404, data = JNull\<rparr>) ''Request failed with status code 404''"
  let ?client = "RaindropClient \<lparr>apiToken = ''token'', baseUrl = None\<rparr>"
  let ?cfg = "operation_request ?client (getRaindrop 7)"
  have "request ?net 0 ?cfg =
      (Inl (formatError (failure ?cfg (Some \<lparr>status = 404, data = JNull\<rparr>) ''Request failed with status code 404'')),
       [Sent ?cfg])"
    by (rule request_throw) (simp_all add: isRetryableError_def failure_def)
  then have "try_switch \<lparr>stringify = (\<lambda>v. []), positive = (\<lambda>s. False)\<rparr> ?net ?client ''get_bookmark''
      (Some [(''id'', JNum 7)]) =
      (Inl (Error ''Not found: The requested resource does not exist. It may have been deleted. DO NOT RETRY.''),
       [Sent ?cfg])"
    by (simp add: try_switch_def destructure_def respond_def await_def template_def
          formatError_def failure_def)
  moreover have "CHR 0x0A \<in> set (formatError
     \<lparr>config = None,
      response = Some \<lparr>status = 400, data = JObj [(''errorMessage'', JStr (''bad'' @ [CHR 0x0A] @ ''link''))]\<rparr>,
      message = ''Request failed with status code 400''\<rparr>)"
    by (simp add: formatError_def template_def or_else_def)
  ultimately show ?thesis
    by (simp add: CallTool_def error_response_def formatError_def)
qed

subsection \<open>Unknown tools\<close>

text \<open>
  Claim C8, as the code has it. While the server is running (the shutdown flag not set),
  every call request whose tool name is none of the fourteen registered names is answered
  with the response whose error flag is set and whose single text block names the
  requested tool, lists the fourteen valid names and tells the caller not to retry with
  the same name; no request is sent to the remote side. The catalogue has fourteen
  descriptors with distinct names.
\<close>

theorem C8_unknown_tool_while_running:
  assumes "call_request.name req \<notin> set (map tool.name tools)"
  shows "CallTool eng net client False req =
       (\<lparr>content =
            [\<lparr>type = ''text'',
              text' = Some (''Unknown tool: '' @ call_request.name req @
                ''. Available tools: search_bookmarks, get_bookmark, create_bookmark, update_bookmark, delete_bookmark, list_collections, get_collection, create_collection, update_collection, delete_collection, list_tags, rename_tag, delete_tag, get_user_info. DO NOT RETRY with the same tool name.'')\<rparr>],
          isError = Some True\<rparr>,
        []) \<and>
     length tools = 14 \<and> distinct (map tool.name tools)"
proof -
  have "CallTool eng net client False req =
       (error_response
          (''Unknown tool: '' @ call_request.name req @ ''. Available tools: '' @
           join (map tool.name tools) @ ''. DO NOT RETRY with the same tool name.''),
        [])"
    using try_switch_unknown [OF assms] by (simp add: CallTool_def)
  moreover have "length tools = 14" "distinct (map tool.name tools)"
    unfolding tool_names by (simp_all add: tools_def)
  ultimately show ?thesis
    by (simp add: joined_tool_names error_response_def)
qed

text \<open>Witness for C8: a call of the unregistered name \<^verbatim>\<open>frobnicate\<close> while running.\<close>

theorem C8_unknown_tool_while_running_witness:
  "CallTool \<lparr>stringify = (\<lambda>v. []), positive = (\<lambda>s. False)\<rparr> (\<lambda>k. NotDispatched [])
     (RaindropClient \<lparr>apiToken = ''token'', baseUrl = None\<rparr>) False
     \<lparr>call_request.name = ''frobnicate'', arguments = None\<rparr> =
   (\<lparr>content =
        [\<lparr>type = ''text'',
          text' = Some ''Unknown tool: frobnicate. Available tools: search_bookmarks, get_bookmark, create_bookmark, update_bookmark, delete_bookmark, list_collections, get_collection, create_collection, update_collection, delete_collection, list_tags, rename_tag, delete_tag, get_user_info. DO NOT RETRY with the same tool name.''\<rparr>],
      isError = Some True\<rparr>,
    [])"
  using C8_unknown_tool_while_running
    [of "\<lparr>call_request.name = ''frobnicate'', arguments = None\<rparr>"
      "\<lparr>stringify = (\<lambda>v. []), positive = (\<lambda>s. False)\<rparr>" "\<lambda>k. NotDispatched []"
      "RaindropClient \<lparr>apiToken = ''token'', baseUrl = None\<rparr>"]
  by (simp add: tools_def)

text \<open>
  Claim C8 as stated fails: while the server shuts down, a call of an unregistered name is
  answered with the shutdown notice, which lists no tool name.
\<close>

theorem C8_unknown_tool_while_shutting_down:
  "''frobnicate'' \<notin> set (map tool.name tools) \<and>
   CallTool \<lparr>stringify = (\<lambda>v. []), positive = (\<lambda>s. False)\<rparr> (\<lambda>k. NotDispatched [])
     (RaindropClient \<lparr>apiToken = ''token'', baseUrl = None\<rparr>) True
     \<lparr>call_request.name = ''frobnicate'', arguments = None\<rparr> =
   (\<lparr>content =
        [\<lparr>type = ''text'',
          text' = Some ''Error: Server is shutting down. Please wait and try again. DO NOT RETRY immediately.''\<rparr>],
      isError = Some True\<rparr>,
    [])"
  by (simp add: CallTool_def error_response_def tools_def)

subsection \<open>Shutting down\<close>

text \<open>
  Claim C9. Once the shutdown flag is set, every call request is answered with the
  response whose error flag is set and whose single text block is the shutdown notice
  that tells the caller not to retry immediately, and no request is sent to the remote
  side (no operation of the client is invoked); every list request throws. A termination
  signal at time \<open>at\<close> sets the flag, and the process exits with code 0 exactly from time
  \<open>at + 5000\<close> on; a later signal does not move that time.
\<close>

theorem C9_shutting_down:
  assumes "isShuttingDown s"
  shows "CallTool eng net client (isShuttingDown s) req =
       (\<lparr>content =
            [\<lparr>type = ''text'',
              text' = Some ''Error: Server is shutting down. Please wait and try again. DO NOT RETRY immediately.''\<rparr>],
          isError = Some True\<rparr>,
        []) \<and>
     ListTools (isShuttingDown s) =
       Inl (Error ''Server is shutting down. Please wait and try again.'') \<and>
     isShuttingDown (shutdown at running) \<and>
     exit_code now (shutdown at running) = (if at + 5000 \<le> now then Some 0 else None) \<and>
     (at \<le> at' \<longrightarrow>
        exit_code now (shutdown at' (shutdown at running)) =
          (if at + 5000 \<le> now then Some 0 else None))"
  using assms
  by (auto simp: CallTool_def ListTools_def error_response_def shutdown_def running_def exit_code_def)

text \<open>
  Witness for C9: after a signal at time 0, a call that the remote side would have
  answered gets the shutdown notice; the process is alive at 4999 ms and gone at 5000 ms.
\<close>

theorem C9_shutting_down_witness:
  "CallTool \<lparr>stringify = (\<lambda>v. []), positive = (\<lambda>s. False)\<rparr>
     (\<lambda>k. Responded \<lparr>status = 200, data = JObj [(''item'', JObj [(''_id'', JNum 7)])]\<rparr>)
     (RaindropClient \<lparr>apiToken = ''token'', baseUrl = None\<rparr>) (isShuttingDown (shutdown 0 running))
     \<lparr>call_request.name = ''get_bookmark'', arguments = Some [(''id'', JNum 7)]\<rparr> =
   (\<lparr>content =
        [\<lparr>type = ''text'',
          text' = Some ''Error: Server is shutting down. Please wait and try again. DO NOT RETRY immediately.''\<rparr>],
      isError = Some True\<rparr>,
    []) \<and>
   ListTools (isShuttingDown (shutdown 0 running)) =
     Inl (Error ''Server is shutting down. Please wait and try again.'') \<and>
   exit_code 4999 (shutdown 0 running) = None \<and>
   exit_code 5000 (shutdown 0 running) = Some 0 \<and>
   exit_code 5000 (shutdown 3000 (shutdown 0 running)) = Some 0"
proof -
  have s: "isShuttingDown (shutdown 0 running)"
    by (simp add: shutdown_def)
  note w = C9_shutting_down [OF s, of "\<lparr>stringify = (\<lambda>v. []), positive = (\<lambda>s. False)\<rparr>"
      "\<lambda>k. Responded \<lparr>status = 200, data = JObj [(''item'', JObj [(''_id'', JNum 7)])]\<rparr>"
      "RaindropClient \<lparr>apiToken = ''token'', baseUrl = None\<rparr>"
      "\<lparr>call_request.name = ''get_bookmark'', arguments = Some [(''id'', JNum 7)]\<rparr>"]
  show ?thesis
    using w [of 0 4999 3000] w [of 0 5000 3000]
    by simp
qed

end
